theory Spec2Isabelle
  imports Complex_Main
begin

text \<open>
  A shallow embedding of the messaging core of the CRM: the keyword classifier, the session
  of the WhatsApp route with its retry schedule, the handler of inbound messages, the route
  that sends a message, and the route that lists the conversations. The store is a pair of
  lists of documents, every call into it may throw, and what the routes cannot know
  beforehand (the transport, the clock, the faults of the store) is a parameter.
\<close>

section \<open>JavaScript strings\<close>

text \<open>
  Strings are lists of code units, and the model covers the code units below 256 (ASCII
  and Latin-1). On them \<open>toLowerCase\<close> maps the letters A to Z and the Latin-1 capitals
  (0xC0 to 0xDE without the multiplication sign 0xD7) to the letter 32 above and leaves
  every other code unit alone, \<open>\D\<close> is every code unit that is not one of the ten decimal
  digits, and \<open>trim\<close> removes the white space (tab, line feed, vertical tab, form feed,
  carriage return, space, no-break space).
\<close>

definition upperCase :: string where
  "upperCase = ''ABCDEFGHIJKLMNOPQRSTUVWXYZ''
     @ [CHR 0xC0, CHR 0xC1, CHR 0xC2, CHR 0xC3, CHR 0xC4, CHR 0xC5, CHR 0xC6, CHR 0xC7,
        CHR 0xC8, CHR 0xC9, CHR 0xCA, CHR 0xCB, CHR 0xCC, CHR 0xCD, CHR 0xCE, CHR 0xCF,
        CHR 0xD0, CHR 0xD1, CHR 0xD2, CHR 0xD3, CHR 0xD4, CHR 0xD5, CHR 0xD6,
        CHR 0xD8, CHR 0xD9, CHR 0xDA, CHR 0xDB, CHR 0xDC, CHR 0xDD, CHR 0xDE]"

definition lowerCase :: string where
  "lowerCase = ''abcdefghijklmnopqrstuvwxyz''
     @ [CHR 0xE0, CHR 0xE1, CHR 0xE2, CHR 0xE3, CHR 0xE4, CHR 0xE5, CHR 0xE6, CHR 0xE7,
        CHR 0xE8, CHR 0xE9, CHR 0xEA, CHR 0xEB, CHR 0xEC, CHR 0xED, CHR 0xEE, CHR 0xEF,
        CHR 0xF0, CHR 0xF1, CHR 0xF2, CHR 0xF3, CHR 0xF4, CHR 0xF5, CHR 0xF6,
        CHR 0xF8, CHR 0xF9, CHR 0xFA, CHR 0xFB, CHR 0xFC, CHR 0xFD, CHR 0xFE]"

definition upperToLower :: "(char \<times> char) list" where
  "upperToLower = zip upperCase lowerCase"

definition toLowerChar :: "char \<Rightarrow> char" where
  "toLowerChar c = (case map_of upperToLower c of Some l \<Rightarrow> l | None \<Rightarrow> c)"

definition toLowerCase :: "string \<Rightarrow> string" where
  "toLowerCase s = map toLowerChar s"

text \<open>\<open>s.startsWith(w)\<close>: the first argument is the text, the second the prefix.\<close>

fun startsWith :: "string \<Rightarrow> string \<Rightarrow> bool" where
  "startsWith s [] = True"
| "startsWith [] (d # ds) = False"
| "startsWith (c # cs) (d # ds) = (c = d \<and> startsWith cs ds)"

text \<open>\<open>s.includes(w)\<close> (\<open>includes\<close> is a keyword of the proof language, hence the prefix): \<open>w\<close> occurs in \<open>s\<close> at some position.\<close>

fun js_includes :: "string \<Rightarrow> string \<Rightarrow> bool" where
  "js_includes [] w = (w = [])"
| "js_includes (c # cs) w = (startsWith (c # cs) w \<or> js_includes cs w)"

text \<open>\<open>s.replace(pat, rep)\<close> with a string pattern: only the first occurrence.\<close>

fun replaceFirst :: "string \<Rightarrow> string \<Rightarrow> string \<Rightarrow> string" where
  "replaceFirst pat rep [] = (if pat = [] then rep else [])"
| "replaceFirst pat rep (c # cs) =
     (if startsWith (c # cs) pat then rep @ drop (length pat) (c # cs)
      else c # replaceFirst pat rep cs)"

definition isDigit :: "char \<Rightarrow> bool" where
  "isDigit c = (c \<in> set ''0123456789'')"

text \<open>\<open>s.replace(/\D/g, '')\<close>\<close>

definition stripNonDigits :: "string \<Rightarrow> string" where
  "stripNonDigits s = filter isDigit s"

definition isSpace :: "char \<Rightarrow> bool" where
  "isSpace c =
     (c \<in> set [CHR 0x09, CHR 0x0A, CHR 0x0B, CHR 0x0C, CHR 0x0D, CHR '' '', CHR 0xA0])"

definition trim :: "string \<Rightarrow> string" where
  "trim s = rev (dropWhile isSpace (rev (dropWhile isSpace s)))"

text \<open>Decimal rendering of a non-negative integer, as a template literal prints it.\<close>

definition digitChar :: "nat \<Rightarrow> char" where
  "digitChar n = ''0123456789'' ! (n mod 10)"

fun showNat :: "nat \<Rightarrow> string" where
  "showNat n = (if n < 10 then [digitChar n] else showNat (n div 10) @ [digitChar n])"

declare showNat.simps [simp del]

text \<open>
  A value that may be \<open>undefined\<close>; the empty string and \<open>undefined\<close> are the falsy ones.
\<close>

definition truthy :: "string option \<Rightarrow> bool" where
  "truthy v = (case v of None \<Rightarrow> False | Some s \<Rightarrow> s \<noteq> [])"

section \<open>Sentiment classifier\<close>

datatype sentiment_label = Positive | Neutral | Negative

record analysis =
  a_sentiment :: sentiment_label
  a_score :: real

definition positiveWords :: "string list" where
  "positiveWords = [''thank'', ''thanks'', ''great'', ''good'', ''excellent'', ''happy'',
     ''satisfied'', ''love'', ''perfect'', ''awesome'', ''amazing'', ''wonderful'', ''pleased'']"

definition negativeWords :: "string list" where
  "negativeWords = [''bad'', ''terrible'', ''worst'', ''angry'', ''frustrated'',
     ''disappointed'', ''hate'', ''problem'', ''issue'', ''error'', ''wrong'', ''broken'',
     ''refund'', ''cancel'', ''complaint'']"

text \<open>\<open>analyzeSentiment\<close> of the WhatsApp route (the same text as \<open>analyzeSentimentSimple\<close>).\<close>

definition analyzeSentiment :: "string \<Rightarrow> analysis" where
  "analyzeSentiment message =
     (let lowerMsg = toLowerCase message;
          positiveCount = length (filter (\<lambda>word. js_includes lowerMsg word) positiveWords);
          negativeCount = length (filter (\<lambda>word. js_includes lowerMsg word) negativeWords)
      in if negativeCount > positiveCount then \<lparr>a_sentiment = Negative, a_score = 0.7\<rparr>
         else if positiveCount > negativeCount then \<lparr>a_sentiment = Positive, a_score = 0.7\<rparr>
         else \<lparr>a_sentiment = Neutral, a_score = 0.5\<rparr>)"

text \<open>
  The classifier as the specification words it, with every keyword counted once. Letter
  case is taken from the codes of the characters, not from \<open>toLowerCase\<close>: a capital
  letter and the letter 32 above it are the same letter. A keyword counts when it occurs
  in the text as a substring, letter case ignored; the number of keywords of each set that
  occur decides the label.
\<close>

definition isUpperCaseLetter :: "char \<Rightarrow> bool" where
  "isUpperCaseLetter c =
     (let n = (of_char c :: nat)
      in (65 \<le> n \<and> n \<le> 90) \<or> (192 \<le> n \<and> n \<le> 214) \<or> (216 \<le> n \<and> n \<le> 222))"

definition sameIgnoringCase :: "char \<Rightarrow> char \<Rightarrow> bool" where
  "sameIgnoringCase a b =
     (a = b
      \<or> (isUpperCaseLetter a \<and> (of_char b :: nat) = of_char a + 32)
      \<or> (isUpperCaseLetter b \<and> (of_char a :: nat) = of_char b + 32))"

definition occursIgnoringCase :: "string \<Rightarrow> string \<Rightarrow> bool" where
  "occursIgnoringCase w text =
     (\<exists>pre mid post. text = pre @ mid @ post \<and> list_all2 sameIgnoringCase mid w)"

definition keywordHits :: "string list \<Rightarrow> string \<Rightarrow> nat" where
  "keywordHits ws text = card {w. w \<in> set ws \<and> occursIgnoringCase w text}"

definition classifySpec :: "string \<Rightarrow> sentiment_label \<times> real" where
  "classifySpec text =
     (let p = keywordHits positiveWords text; n = keywordHits negativeWords text
      in if n > p then (Negative, 0.7) else if p > n then (Positive, 0.7) else (Neutral, 0.5))"

text \<open>
  The other reading of the specification, with every occurrence counted: a keyword that
  occurs at two places of the text counts twice.
\<close>

fun matchesAt :: "string \<Rightarrow> string \<Rightarrow> bool" where
  "matchesAt s [] = True"
| "matchesAt [] (k # ks) = False"
| "matchesAt (c # cs) (k # ks) = (sameIgnoringCase c k \<and> matchesAt cs ks)"

fun occurrencesOf :: "string \<Rightarrow> string \<Rightarrow> nat" where
  "occurrencesOf w [] = (if w = [] then 1 else 0)"
| "occurrencesOf w (c # cs) = (if matchesAt (c # cs) w then 1 else 0) + occurrencesOf w cs"

definition occurrenceCount :: "string list \<Rightarrow> string \<Rightarrow> nat" where
  "occurrenceCount ws text = sum_list (map (\<lambda>w. occurrencesOf w text) ws)"

definition classifyByOccurrences :: "string \<Rightarrow> sentiment_label \<times> real" where
  "classifyByOccurrences text =
     (let p = occurrenceCount positiveWords text; n = occurrenceCount negativeWords text
      in if n > p then (Negative, 0.7) else if p > n then (Positive, 0.7) else (Neutral, 0.5))"

definition labelAndScore :: "analysis \<Rightarrow> sentiment_label \<times> real" where
  "labelAndScore a = (a_sentiment a, a_score a)"

section \<open>Documents and the store\<close>

datatype direction = Inbound | Outbound

datatype delivery_status = Sent | Delivered | Read | Failed

datatype query_status = New | InProgress | Resolved | Closed

text \<open>
  Modelled from the spec: the Contact schema (\<open>models/Contact.js\<close>) is not among the
  sources. The fields are the ones the routes read and write, \<open>queryStatus\<close> ranges over
  the four values of the data model, and dates are milliseconds since the epoch. What the
  schema gives \<open>lastContacted\<close> when a document is created without it is a parameter of
  the send pipeline below.
\<close>

record contact =
  c_id :: nat
  name :: string
  c_phone :: string
  queryStatus :: query_status
  unreadCount :: int
  lastContacted :: "int option"

text \<open>The Message schema: \<open>contactId\<close> is optional, the enums are datatypes.\<close>

record message_doc =
  m_id :: nat
  contactId :: "nat option"
  phone :: string
  direction :: direction
  message :: string
  timestamp :: int
  status :: delivery_status
  sentiment :: sentiment_label
  sentimentScore :: real

record db =
  contacts :: "contact list"
  messages :: "message_doc list"

text \<open>
  Every call into the store may throw. \<open>faults\<close> says which operation throws, and with
  which error message; an operation that throws leaves the store as it was, and what
  earlier operations wrote stays written (the routes use no transaction).
\<close>

datatype db_op =
  ContactFindById | ContactFindOne | ContactCreate | ContactSave
  | ContactFindByIdAndUpdate | MessageCreate | MessageAggregate | MessageFindOne

type_synonym faults = "db_op \<Rightarrow> string option"

text \<open>A generated \<open>_id\<close>: different from every id of the collection.\<close>

definition newObjectId :: "nat list \<Rightarrow> nat" where
  "newObjectId ids = Suc (fold max ids 0)"

definition Contact_findById :: "faults \<Rightarrow> nat \<Rightarrow> db \<Rightarrow> string + contact option" where
  "Contact_findById f i d =
     (case f ContactFindById of
        Some e \<Rightarrow> Inl e
      | None \<Rightarrow> Inr (find (\<lambda>c. c_id c = i) (contacts d)))"

definition Contact_findOne :: "faults \<Rightarrow> string \<Rightarrow> db \<Rightarrow> string + contact option" where
  "Contact_findOne f ph d =
     (case f ContactFindOne of
        Some e \<Rightarrow> Inl e
      | None \<Rightarrow> Inr (find (\<lambda>c. c_phone c = ph) (contacts d)))"

definition Contact_create ::
  "faults \<Rightarrow> string \<Rightarrow> string \<Rightarrow> query_status \<Rightarrow> int \<Rightarrow> int option \<Rightarrow> db
   \<Rightarrow> string + (contact \<times> db)" where
  "Contact_create f nm ph qs unread lastC d =
     (case f ContactCreate of
        Some e \<Rightarrow> Inl e
      | None \<Rightarrow>
          (let c = \<lparr>c_id = newObjectId (map c_id (contacts d)), name = nm, c_phone = ph,
                     queryStatus = qs, unreadCount = unread, lastContacted = lastC\<rparr>
           in Inr (c, d\<lparr>contacts := contacts d @ [c]\<rparr>)))"

text \<open>\<open>contact.save()\<close>: the document with this \<open>_id\<close> is replaced.\<close>

definition Contact_save :: "faults \<Rightarrow> contact \<Rightarrow> db \<Rightarrow> string + db" where
  "Contact_save f c d =
     (case f ContactSave of
        Some e \<Rightarrow> Inl e
      | None \<Rightarrow>
          Inr (d\<lparr>contacts := map (\<lambda>x. if c_id x = c_id c then c else x) (contacts d)\<rparr>))"

text \<open>The update object of \<open>findByIdAndUpdate\<close>: only the fields present are written.\<close>

record contact_update =
  u_lastContacted :: "int option"
  u_queryStatus :: "query_status option"

definition applyUpdate :: "contact_update \<Rightarrow> contact \<Rightarrow> contact" where
  "applyUpdate u c =
     (let c1 = (case u_lastContacted u of None \<Rightarrow> c | Some t \<Rightarrow> c\<lparr>lastContacted := Some t\<rparr>)
      in case u_queryStatus u of None \<Rightarrow> c1 | Some q \<Rightarrow> c1\<lparr>queryStatus := q\<rparr>)"

definition Contact_findByIdAndUpdate ::
  "faults \<Rightarrow> nat \<Rightarrow> contact_update \<Rightarrow> db \<Rightarrow> string + db" where
  "Contact_findByIdAndUpdate f i u d =
     (case f ContactFindByIdAndUpdate of
        Some e \<Rightarrow> Inl e
      | None \<Rightarrow>
          Inr (d\<lparr>contacts := map (\<lambda>x. if c_id x = i then applyUpdate u x else x) (contacts d)\<rparr>))"

text \<open>
  The object handed to \<open>Message.create\<close>: the fields with a schema default may be left
  out. The schema fills them in: \<open>timestamp\<close> with the current time, \<open>status\<close> with
  \<open>sent\<close>, \<open>sentiment\<close> with \<open>neutral\<close>, \<open>sentimentScore\<close> with 0.5. \<open>phone\<close> and
  \<open>message\<close> are required strings, which an empty string does not satisfy.
\<close>

record message_data =
  md_contactId :: "nat option"
  md_phone :: string
  md_direction :: direction
  md_message :: string
  md_timestamp :: "int option"
  md_status :: "delivery_status option"
  md_sentiment :: "sentiment_label option"
  md_sentimentScore :: "real option"

definition Message_create :: "faults \<Rightarrow> int \<Rightarrow> message_data \<Rightarrow> db \<Rightarrow> string + db" where
  "Message_create f nowMs md d =
     (case f MessageCreate of
        Some e \<Rightarrow> Inl e
      | None \<Rightarrow>
          if md_phone md = [] \<or> md_message md = [] then Inl ''Message validation failed''
          else Inr (d\<lparr>messages := messages d @
            [\<lparr>m_id = newObjectId (map m_id (messages d)),
              contactId = md_contactId md,
              phone = md_phone md,
              direction = md_direction md,
              message = md_message md,
              timestamp = (case md_timestamp md of Some t \<Rightarrow> t | None \<Rightarrow> nowMs),
              status = (case md_status md of Some st \<Rightarrow> st | None \<Rightarrow> Sent),
              sentiment = (case md_sentiment md of Some l \<Rightarrow> l | None \<Rightarrow> Neutral),
              sentimentScore = (case md_sentimentScore md of Some x \<Rightarrow> x | None \<Rightarrow> 0.5)\<rparr>]\<rparr>))"

section \<open>The session\<close>

text \<open>
  The module-level variables of the WhatsApp route. A client object is identified by the
  number of clients created before it; \<open>clientsCreated\<close> is not a variable of the source,
  it only tells one \<open>new Client\<close> from the next.
\<close>

record session =
  whatsappClient :: "nat option"
  qrCodeData :: "string option"
  isReady :: bool
  isInitializing :: bool
  retryCount :: nat
  clientsCreated :: nat

definition MAX_RETRIES :: nat where
  "MAX_RETRIES = 3"

definition moduleLoad :: session where
  "moduleLoad = \<lparr>whatsappClient = None, qrCodeData = None, isReady = False,
     isInitializing = False, retryCount = 0, clientsCreated = 0\<rparr>"

text \<open>\<open>initWhatsApp\<close> up to the call of \<open>initialize()\<close>, whose outcome arrives as an event.\<close>

definition initWhatsApp :: "bool \<Rightarrow> session \<Rightarrow> session" where
  "initWhatsApp resetRetryCount s =
     (if whatsappClient s \<noteq> None \<or> isInitializing s then s
      else
        (let s1 = s\<lparr>isInitializing := True\<rparr>;
             s2 = (if resetRetryCount then s1\<lparr>retryCount := 0\<rparr> else s1)
         in s2\<lparr>whatsappClient := Some (clientsCreated s2),
                clientsCreated := Suc (clientsCreated s2)\<rparr>))"

definition on_qr :: "string \<Rightarrow> session \<Rightarrow> session" where
  "on_qr qr s = s\<lparr>qrCodeData := Some qr\<rparr>"

definition on_ready :: "session \<Rightarrow> session" where
  "on_ready s = s\<lparr>isReady := True, qrCodeData := None, isInitializing := False, retryCount := 0\<rparr>"

definition on_auth_failure :: "session \<Rightarrow> session" where
  "on_auth_failure s = s\<lparr>isReady := False\<rparr>"

text \<open>
  \<open>retryWithBackoff\<close>: the new state and the delay of the timer it sets, if it sets one.
\<close>

definition retryWithBackoff :: "session \<Rightarrow> session \<times> nat option" where
  "retryWithBackoff s =
     (if retryCount s \<ge> MAX_RETRIES
      then (s\<lparr>isInitializing := False, whatsappClient := None\<rparr>, None)
      else
        (let s1 = s\<lparr>retryCount := retryCount s + 1\<rparr>;
             delay = min (1000 * 2 ^ (retryCount s1 - 1)) 10000
         in (s1, Some delay)))"

text \<open>The callback of that timer: the client is dropped and a new one is initialised.\<close>

definition retryTimer :: "session \<Rightarrow> session" where
  "retryTimer s =
     (let s1 = (if whatsappClient s \<noteq> None then s\<lparr>whatsappClient := None\<rparr> else s)
      in initWhatsApp False (s1\<lparr>isInitializing := False\<rparr>))"

text \<open>
  \<open>initialize()\<close> rejects (or throws): each of the three branches of the handler ends in
  \<open>retryWithBackoff\<close>.
\<close>

definition initializeRejected :: "session \<Rightarrow> session \<times> nat option" where
  "initializeRejected s = retryWithBackoff (s\<lparr>isInitializing := False\<rparr>)"

text \<open>The \<open>error\<close> event of the client, by the message of the error.\<close>

definition on_error :: "string option \<Rightarrow> session \<Rightarrow> session \<times> nat option" where
  "on_error msg s =
     (case msg of
        None \<Rightarrow> (s, None)
      | Some m \<Rightarrow>
          if m \<noteq> [] \<and> js_includes m ''EBUSY'' then (s, None)
          else if m \<noteq> [] \<and> (js_includes m ''Protocol error''
                  \<or> js_includes m ''Execution context was destroyed'')
          then retryWithBackoff (s\<lparr>isInitializing := False\<rparr>)
          else (s, None))"

text \<open>
  The \<open>disconnected\<close> event, and the callback of the 2000 ms timer it sets.
\<close>

definition on_disconnected :: "session \<Rightarrow> session" where
  "on_disconnected s = s\<lparr>isReady := False, isInitializing := False\<rparr>"

definition disconnectedTimer :: "session \<Rightarrow> session" where
  "disconnectedTimer s = s\<lparr>whatsappClient := None\<rparr>"

text \<open>
  The reconnect route: the state it leaves, and the delay after which its timer calls
  \<open>initWhatsApp()\<close>. A failing \<open>destroy()\<close> is caught and changes nothing.
\<close>

definition reconnect :: "session \<Rightarrow> session \<times> nat" where
  "reconnect s =
     (s\<lparr>isInitializing := False, retryCount := 0, whatsappClient := None,
        isReady := False, qrCodeData := None\<rparr>, 2000)"

text \<open>
  A run of up to \<open>n\<close> failed initialisations in a row: each failure is followed by the
  retry timer when one was set, and the run ends with the failure that sets none (no client
  is left to fail). The result lists what each failure scheduled.
\<close>

fun consecutiveFailures :: "nat \<Rightarrow> session \<Rightarrow> nat option list \<times> session" where
  "consecutiveFailures 0 s = ([], s)"
| "consecutiveFailures (Suc n) s =
     (case initializeRejected s of
        (s1, None) \<Rightarrow> ([None], s1)
      | (s1, Some delay) \<Rightarrow>
          (case consecutiveFailures n (retryTimer s1) of (ds, s2) \<Rightarrow> (Some delay # ds, s2)))"

section \<open>Outbound send pipeline\<close>

text \<open>The body of the request; a field may be missing.\<close>

record send_request =
  req_phone :: "string option"
  req_message :: "string option"
  req_contactId :: "nat option"

text \<open>
  What \<open>sendMessage\<close> throws: its \<open>message\<close> property, if any, and its rendering as a
  string (\<open>toString()\<close>).
\<close>

record send_error =
  err_message :: "string option"
  err_toString :: string

text \<open>
  A response is either \<open>res.status(code).json({error})\<close> or the success object with the
  id of the sent message and the fixed text.
\<close>

datatype response = ErrorResponse nat string | SendSuccess string string

text \<open>
  What the handler cannot see in advance: the transport (\<open>Inl\<close> is a throw, \<open>Inr\<close> the
  serialized id of the sent message), whether the session is still connected when a
  dispatch failure is handled, the faults of the store, the two readings of the clock
  (the timestamp of the message, the \<open>lastContacted\<close> of the update), and what the
  Contact schema gives \<open>lastContacted\<close> when a contact is created without it.
\<close>

record send_env =
  sendMessage :: "string \<Rightarrow> string \<Rightarrow> send_error + string"
  connectedOnFailure :: bool
  faults :: faults
  nowMessage :: int
  nowUpdate :: int
  defaultLastContacted :: "int option"

definition newline :: string where
  "newline = [CHR 0x0A]"

definition tooShortError :: "nat \<Rightarrow> string" where
  "tooShortError n = ''Phone number is too short ('' @ showNat n
     @ '' digits). Please include country code.'' @ newline
     @ ''Example: 1234567890 (US) or 911234567890 (India)''"

definition tooLongError :: "nat \<Rightarrow> string" where
  "tooLongError n = ''Phone number is too long ('' @ showNat n
     @ '' digits). Maximum is 15 digits with country code.''"

definition notRegisteredError :: "string \<Rightarrow> string" where
  "notRegisteredError cleanedPhone = ''Phone number '' @ cleanedPhone
     @ '' is not registered on WhatsApp or is invalid. Please verify:'' @ newline
     @ ''- The number includes country code (e.g., 1234567890 for US)'' @ newline
     @ ''- The number is correct'' @ newline
     @ ''- The contact has WhatsApp installed''"

definition genericSendError :: "string \<Rightarrow> string" where
  "genericSendError detailedError = ''Failed to send message: '' @ detailedError
     @ ''. Please verify:'' @ newline
     @ ''- Phone number format is correct (include country code)'' @ newline
     @ ''- WhatsApp is connected'' @ newline
     @ ''- The number is registered on WhatsApp''"

text \<open>\<open>a || b || c\<close> on strings: the first non-empty one.\<close>

definition firstTruthy :: "string option \<Rightarrow> string \<Rightarrow> string \<Rightarrow> string" where
  "firstTruthy a b c = (if truthy a then the a else if b \<noteq> [] then b else c)"

text \<open>The \<open>catch\<close> around \<open>sendMessage\<close>.\<close>

definition dispatchFailure :: "bool \<Rightarrow> string \<Rightarrow> send_error \<Rightarrow> response" where
  "dispatchFailure stillConnected cleanedPhone sendError =
     (let errorMsg = toLowerCase (firstTruthy (err_message sendError) (err_toString sendError) '''');
          errorString = err_toString sendError
      in if js_includes errorMsg ''t: t'' \<or> js_includes errorMsg ''not registered''
            \<or> js_includes errorMsg ''invalid number''
            \<or> js_includes errorMsg ''number not registered''
            \<or> js_includes errorString ''not registered''
         then ErrorResponse 400 (notRegisteredError cleanedPhone)
         else if js_includes errorMsg ''protocol error'' \<or> js_includes errorMsg ''execution context''
            \<or> js_includes errorMsg ''target closed'' \<or> js_includes errorMsg ''session closed''
         then ErrorResponse 503
           ''WhatsApp connection lost. Please go to Settings and reconnect your WhatsApp account.''
         else if js_includes errorMsg ''timeout'' \<or> js_includes errorMsg ''timed out''
         then ErrorResponse 504
           ''Request timed out. Please check your internet connection and try again.''
         else if js_includes errorMsg ''rate limit'' \<or> js_includes errorMsg ''too many''
         then ErrorResponse 429
           ''Too many messages sent. Please wait a few minutes before sending more messages.''
         else if \<not> stillConnected
         then ErrorResponse 400
           ''WhatsApp is not connected. Please go to Settings and connect your WhatsApp account first.''
         else ErrorResponse 500
           (genericSendError
              (firstTruthy (err_message sendError) (err_toString sendError) ''Unknown error'')))"

text \<open>The outer \<open>catch\<close> of the route, for an error with message \<open>e\<close> (empty: none).\<close>

definition outerCatch :: "string \<Rightarrow> response" where
  "outerCatch e =
     ErrorResponse 500
       (if e \<noteq> [] then
          (if js_includes e ''not connected''
           then ''WhatsApp is not connected. Please check your connection in Settings.''
           else if js_includes e ''timeout'' then ''Request timed out. Please try again.''
           else e)
        else ''An unexpected error occurred while sending the message.'')"

text \<open>
  The part of the route after a successful dispatch (``Save to database''): the error
  thrown, if any, and the store as it is left.
\<close>

definition saveToDatabase ::
  "send_env \<Rightarrow> nat option \<Rightarrow> string \<Rightarrow> string \<Rightarrow> db \<Rightarrow> string option \<times> db" where
  "saveToDatabase env cid cleanedPhone text d =
     (case (case cid of
              Some i \<Rightarrow> Contact_findById (faults env) i d
            | None \<Rightarrow> Contact_findOne (faults env) cleanedPhone d) of
        Inl e \<Rightarrow> (Some e, d)
      | Inr found \<Rightarrow>
          (let messageData = \<lparr>md_contactId = None, md_phone = cleanedPhone,
                 md_direction = Outbound, md_message = text,
                 md_timestamp = Some (nowMessage env), md_status = Some Sent,
                 md_sentiment = None, md_sentimentScore = None\<rparr>
           in case found of
                Some c \<Rightarrow>
                  (case Message_create (faults env) (nowMessage env)
                          (messageData\<lparr>md_contactId := Some (c_id c)\<rparr>) d of
                     Inl e \<Rightarrow> (Some e, d)
                   | Inr d1 \<Rightarrow>
                       (let updateData = \<lparr>u_lastContacted = Some (nowUpdate env),
                              u_queryStatus =
                                (if queryStatus c = New then Some InProgress else None)\<rparr>
                        in case Contact_findByIdAndUpdate (faults env) (c_id c) updateData d1 of
                             Inl e \<Rightarrow> (Some e, d1)
                           | Inr d2 \<Rightarrow> (None, d2)))
              | None \<Rightarrow>
                  (case Contact_create (faults env)
                          (''Customer '' @ drop (length cleanedPhone - 4) cleanedPhone)
                          cleanedPhone New 0 (defaultLastContacted env) d of
                     Inl e \<Rightarrow> (Some e, d)
                   | Inr (c, d1) \<Rightarrow>
                       (case Message_create (faults env) (nowMessage env)
                               (messageData\<lparr>md_contactId := Some (c_id c)\<rparr>) d1 of
                          Inl e \<Rightarrow> (Some e, d1)
                        | Inr d2 \<Rightarrow> (None, d2)))))"

text \<open>The route \<open>POST /send\<close>: the response and the store afterwards.\<close>

definition send :: "send_env \<Rightarrow> session \<Rightarrow> send_request \<Rightarrow> db \<Rightarrow> response \<times> db" where
  "send env s req d =
     (if \<not> isReady s \<or> whatsappClient s = None
      then (ErrorResponse 400
              ''WhatsApp not connected. Please check your connection in Settings.'', d)
      else if \<not> truthy (req_phone req) \<or> \<not> truthy (req_message req)
      then (ErrorResponse 400 ''Phone and message are required'', d)
      else
        (let cleanedPhone = stripNonDigits (the (req_phone req));
             text = the (req_message req)
         in if cleanedPhone = []
            then (ErrorResponse 400 ''Phone number is required and cannot be empty.'', d)
            else if length cleanedPhone < 10
            then (ErrorResponse 400 (tooShortError (length cleanedPhone)), d)
            else if length cleanedPhone > 15
            then (ErrorResponse 400 (tooLongError (length cleanedPhone)), d)
            else
              (let formattedPhone =
                     (if \<not> js_includes cleanedPhone ''@'' then cleanedPhone @ ''@c.us''
                      else cleanedPhone)
               in if length (trim text) = 0
                  then (ErrorResponse 400 ''Message cannot be empty'', d)
                  else
                    (case sendMessage env formattedPhone (trim text) of
                       Inl sendError \<Rightarrow>
                         (dispatchFailure (connectedOnFailure env) cleanedPhone sendError, d)
                     | Inr messageId \<Rightarrow>
                         (case saveToDatabase env (req_contactId req) cleanedPhone (trim text) d of
                            (Some e, d') \<Rightarrow> (outerCatch e, d')
                          | (None, d') \<Rightarrow>
                              (SendSuccess messageId ''Message sent successfully'', d'))))))"

section \<open>Inbound ingestion\<close>

text \<open>The event of the transport; its timestamp is in seconds.\<close>

record inbound_msg =
  msg_from :: string
  msg_body :: string
  msg_timestamp :: int

text \<open>What \<open>getContactById\<close> returns, when it returns an object.\<close>

record contact_info =
  pushname :: "string option"
  info_name :: "string option"

record inbound_env =
  getContactById :: "string \<Rightarrow> string + contact_info option"
  in_faults :: faults
  in_now :: int

definition contactNameOf :: "inbound_env \<Rightarrow> string \<Rightarrow> string" where
  "contactNameOf env sender =
     (case getContactById env sender of
        Inl e \<Rightarrow> ''Customer''
      | Inr None \<Rightarrow> ''Customer''
      | Inr (Some contactInfo) \<Rightarrow>
          if truthy (pushname contactInfo) then the (pushname contactInfo)
          else if truthy (info_name contactInfo) then the (info_name contactInfo)
          else ''Customer'')"

text \<open>
  The handler of the \<open>message\<close> event: the error it logs, if any, and the store afterwards.
\<close>

definition onMessage :: "inbound_env \<Rightarrow> inbound_msg \<Rightarrow> db \<Rightarrow> string option \<times> db" where
  "onMessage env msg d =
     (let ph = replaceFirst ''@c.us'' '''' (msg_from msg)
      in case Contact_findOne (in_faults env) ph d of
           Inl e \<Rightarrow> (Some e, d)
         | Inr found \<Rightarrow>
             (case (case found of
                      None \<Rightarrow>
                        Contact_create (in_faults env) (contactNameOf env (msg_from msg)) ph
                          New 1 (Some (msg_timestamp msg * 1000)) d
                    | Some c \<Rightarrow>
                        (let c1 = c\<lparr>unreadCount :=
                                     (if unreadCount c = 0 then 0 else unreadCount c) + 1\<rparr>;
                             c2 = (if queryStatus c1 = Resolved \<or> queryStatus c1 = Closed
                                   then c1\<lparr>queryStatus := New\<rparr> else c1);
                             c3 = c2\<lparr>lastContacted := Some (msg_timestamp msg * 1000)\<rparr>
                         in case Contact_save (in_faults env) c3 d of
                              Inl e \<Rightarrow> Inl e
                            | Inr d1 \<Rightarrow> Inr (c3, d1))) of
                Inl e \<Rightarrow> (Some e, d)
              | Inr (c, d1) \<Rightarrow>
                  (let sent = analyzeSentiment (msg_body msg)
                   in case Message_create (in_faults env) (in_now env)
                             \<lparr>md_contactId = Some (c_id c), md_phone = ph,
                              md_direction = Inbound, md_message = msg_body msg,
                              md_timestamp = Some (msg_timestamp msg * 1000),
                              md_status = Some Delivered,
                              md_sentiment = Some (a_sentiment sent),
                              md_sentimentScore = Some (a_score sent)\<rparr> d1 of
                        Inl e \<Rightarrow> (Some e, d1)
                      | Inr d2 \<Rightarrow> (None, d2))))"

section \<open>Conversation aggregator\<close>

record sla_info =
  overdue :: bool
  minutes :: int
  sla_text :: string
  urgent :: bool

text \<open>\<open>calculateSLATime\<close> for a set \<open>lastMessageTime\<close>; the clock is the first argument.\<close>

definition calculateSLATime :: "int \<Rightarrow> int \<Rightarrow> int \<Rightarrow> sla_info" where
  "calculateSLATime nowMs lastMessageTime slaHours =
     (let diffMs = nowMs - lastMessageTime;
          diffMins = diffMs div 60000;
          remainingMins = (slaHours * 60) - diffMins
      in if remainingMins \<le> 0
         then \<lparr>overdue = True, minutes = \<bar>remainingMins\<bar>,
               sla_text = showNat (nat \<bar>remainingMins\<bar>) @ ''m overdue'', urgent = True\<rparr>
         else if remainingMins \<le> 30
         then \<lparr>overdue = False, minutes = remainingMins,
               sla_text = showNat (nat remainingMins) @ ''m remaining'', urgent = True\<rparr>
         else
           (let hours = remainingMins div 60; mins = remainingMins mod 60
            in \<lparr>overdue = False, minutes = remainingMins,
                 sla_text = showNat (nat hours) @ ''h '' @ showNat (nat mins) @ ''m remaining'',
                 urgent = False\<rparr>))"

text \<open>One document of the \<open>$group\<close> stage.\<close>

record conv_group =
  g_id :: "nat option"
  g_lastMessage :: int
  g_messageCount :: nat
  g_unreadCount :: nat

definition groupOf :: "nat option \<Rightarrow> message_doc list \<Rightarrow> message_doc list" where
  "groupOf k ms = filter (\<lambda>m. contactId m = k) ms"

fun maxTimestamp :: "message_doc list \<Rightarrow> int" where
  "maxTimestamp [] = 0"
| "maxTimestamp [m] = timestamp m"
| "maxTimestamp (m # ms) = max (timestamp m) (maxTimestamp ms)"

definition groupStage :: "message_doc list \<Rightarrow> nat option \<Rightarrow> conv_group" where
  "groupStage ms k =
     \<lparr>g_id = k,
      g_lastMessage = maxTimestamp (groupOf k ms),
      g_messageCount = sum_list (map (\<lambda>m. 1) (groupOf k ms)),
      g_unreadCount =
        sum_list (map (\<lambda>m. if direction m = Inbound then 1 else 0) (groupOf k ms))\<rparr>"

text \<open>
  \<open>Message.aggregate\<close>: one group for each \<open>contactId\<close> that occurs (a missing
  \<open>contactId\<close> is a group of its own), sorted by \<open>lastMessage\<close>, latest first. The order
  of groups with the same \<open>lastMessage\<close> is the order of first occurrence here; the store
  promises none.
\<close>

definition aggregate :: "message_doc list \<Rightarrow> conv_group list" where
  "aggregate ms =
     sort_key (\<lambda>g. - g_lastMessage g) (map (groupStage ms) (remdups (map contactId ms)))"

text \<open>
  \<open>Message.findOne(...).sort({timestamp: -1})\<close>: a message of the latest timestamp, the
  first stored one when several share it.
\<close>

fun latestOf :: "message_doc list \<Rightarrow> message_doc option" where
  "latestOf [] = None"
| "latestOf (m # ms) =
     (case latestOf ms of
        None \<Rightarrow> Some m
      | Some m' \<Rightarrow> if timestamp m' > timestamp m then Some m' else Some m)"

definition convNegativeWords :: "string list" where
  "convNegativeWords = [''bad'', ''terrible'', ''worst'', ''angry'', ''frustrated'',
     ''disappointed'', ''hate'', ''problem'', ''issue'', ''error'']"

definition convPositiveWords :: "string list" where
  "convPositiveWords = [''thank'', ''great'', ''good'', ''excellent'', ''happy'',
     ''satisfied'', ''love'', ''perfect'']"

text \<open>The block ``Get sentiment of last message''.\<close>

definition lastMessageSentiment :: "message_doc option \<Rightarrow> sentiment_label" where
  "lastMessageSentiment lastMessage =
     (case lastMessage of
        None \<Rightarrow> Neutral
      | Some m \<Rightarrow>
          if direction m = Inbound then
            (let lowerMsg = toLowerCase (message m);
                 negCount = length (filter (\<lambda>w. js_includes lowerMsg w) convNegativeWords);
                 posCount = length (filter (\<lambda>w. js_includes lowerMsg w) convPositiveWords)
             in if negCount > posCount then Negative
                else if posCount > negCount then Positive
                else Neutral)
          else Neutral)"

record last_message =
  lm_message :: string
  lm_timestamp :: int
  lm_direction :: direction

record conversation =
  conv_contact :: "contact option"
  conv_lastMessage :: "last_message option"
  conv_messageCount :: nat
  conv_unreadCount :: nat
  conv_sla :: "sla_info option"
  conv_sentiment :: sentiment_label

text \<open>The body of the \<open>map\<close> over the groups.\<close>

definition populate :: "int \<Rightarrow> db \<Rightarrow> conv_group \<Rightarrow> conversation" where
  "populate nowMs d conv =
     (let found = (case g_id conv of
                     None \<Rightarrow> None
                   | Some i \<Rightarrow> find (\<lambda>c. c_id c = i) (contacts d));
          lastMessage = latestOf (groupOf (g_id conv) (messages d));
          slaInfo = (case found of
                       None \<Rightarrow> None
                     | Some c \<Rightarrow>
                         (case lastContacted c of
                            None \<Rightarrow> None
                          | Some t \<Rightarrow> Some (calculateSLATime nowMs t 2)));
          sent = lastMessageSentiment lastMessage
      in \<lparr>conv_contact = found,
          conv_lastMessage =
            (case lastMessage of
               None \<Rightarrow> None
             | Some m \<Rightarrow> Some \<lparr>lm_message = message m, lm_timestamp = timestamp m,
                               lm_direction = direction m\<rparr>),
          conv_messageCount = g_messageCount conv,
          conv_unreadCount = (if g_unreadCount conv \<noteq> 0 then g_unreadCount conv else 0),
          conv_sla = slaInfo,
          conv_sentiment = sent\<rparr>)"

text \<open>
  The route \<open>GET /\<close> of the conversations: the list of summaries, or the error of the
  500 response when a read of the store throws.
\<close>

definition readFault :: "faults \<Rightarrow> string option" where
  "readFault f =
     (case f ContactFindById of
        Some e \<Rightarrow> Some e
      | None \<Rightarrow> f MessageFindOne)"

definition getConversations :: "faults \<Rightarrow> int \<Rightarrow> db \<Rightarrow> string + conversation list" where
  "getConversations f nowMs d =
     (case f MessageAggregate of
        Some e \<Rightarrow> Inl e
      | None \<Rightarrow>
          (let conversations = aggregate (messages d)
           in case (if conversations = [] then None else readFault f) of
                Some e \<Rightarrow> Inl e
              | None \<Rightarrow> Inr (map (populate nowMs d) conversations)))"

text \<open>No operation of the store throws.\<close>

definition noFaults :: faults where
  "noFaults = (\<lambda>op. None)"

text \<open>What a summary reports as unread, next to the counter stored with its contact.\<close>

definition reportedAndStored :: "conversation \<Rightarrow> int \<times> int option" where
  "reportedAndStored c = (int (conv_unreadCount c), map_option unreadCount (conv_contact c))"

section \<open>Auxiliary notions and example inputs\<close>

definition emptyDb :: db where
  "emptyDb = \<lparr>contacts = [], messages = []\<rparr>"

definition readySession :: session where
  "readySession = \<lparr>whatsappClient = Some 0, qrCodeData = None, isReady = True,
     isInitializing = False, retryCount = 0, clientsCreated = 1\<rparr>"

text \<open>A transport that accepts every message, and a store that never throws.\<close>

definition okEnv :: send_env where
  "okEnv = \<lparr>sendMessage = (\<lambda>recipient body. Inr ''MSG1''), connectedOnFailure = True,
     faults = noFaults, nowMessage = 5000, nowUpdate = 5001, defaultLastContacted = None\<rparr>"

definition retryingSession :: session where
  "retryingSession = \<lparr>whatsappClient = Some 1, qrCodeData = Some ''2@abc'', isReady = False,
     isInitializing = True, retryCount = 2, clientsCreated = 2\<rparr>"

definition requestTo :: "string \<Rightarrow> send_request" where
  "requestTo ph = \<lparr>req_phone = Some ph, req_message = Some ''hi'', req_contactId = None\<rparr>"

text \<open>The messages a pipeline added to the store.\<close>

definition newMessages :: "db \<Rightarrow> db \<Rightarrow> message_doc list" where
  "newMessages d d' = drop (length (messages d)) (messages d')"

text \<open>An inbound event whose sender cannot be looked up, and a store that knows the sender.\<close>

definition inboundEnv :: inbound_env where
  "inboundEnv = \<lparr>getContactById = (\<lambda>sender. Inl ''lookup failed''), in_faults = noFaults,
     in_now = 0\<rparr>"

definition orderProblem :: inbound_msg where
  "orderProblem = \<lparr>msg_from = ''15551234567@c.us'',
     msg_body = ''I have a problem with my order'', msg_timestamp = 1700000000\<rparr>"

definition resolvedDb :: db where
  "resolvedDb = \<lparr>contacts = [\<lparr>c_id = 7, name = ''Asha'', c_phone = ''15551234567'',
     queryStatus = Resolved, unreadCount = 2, lastContacted = Some 1000\<rparr>], messages = []\<rparr>"


text \<open>A store with one contact whose query is new.\<close>

definition newContactDb :: db where
  "newContactDb = \<lparr>contacts = [\<lparr>c_id = 7, name = ''Asha'', c_phone = ''12345678901'',
     queryStatus = New, unreadCount = 1, lastContacted = Some 1000\<rparr>], messages = []\<rparr>"

text \<open>The list of summaries of a successful read, and nothing for a failed one.\<close>

definition summariesOf :: "string + conversation list \<Rightarrow> conversation list" where
  "summariesOf r = (case r of Inl e \<Rightarrow> [] | Inr cs \<Rightarrow> cs)"

text \<open>
  The latest sentiment as the specification words it: the stored label of the most recent
  inbound message of the contact, and neutral when it has none.
\<close>

definition latestInboundSentiment :: "db \<Rightarrow> nat option \<Rightarrow> sentiment_label" where
  "latestInboundSentiment d k =
     (case latestOf (filter (\<lambda>m. direction m = Inbound) (groupOf k (messages d))) of
        None \<Rightarrow> Neutral
      | Some m \<Rightarrow> sentiment m)"

text \<open>The keywords of the classifier that the lists of the aggregator leave out.\<close>

definition omittedWords :: "string list" where
  "omittedWords = [''thanks'', ''awesome'', ''amazing'', ''wonderful'', ''pleased'',
     ''wrong'', ''broken'', ''refund'', ''cancel'', ''complaint'']"

text \<open>
  A contact whose counter was reset after an agent answered: one inbound message, classified
  negative when it came in, and the later answer.
\<close>

definition repliedDb :: db where
  "repliedDb =
     \<lparr>contacts = [\<lparr>c_id = 7, name = ''Asha'', c_phone = ''15551234567'',
        queryStatus = InProgress, unreadCount = 0, lastContacted = Some 0\<rparr>],
      messages =
        [\<lparr>m_id = 1, contactId = Some 7, phone = ''15551234567'', direction = Inbound,
          message = ''I have a problem with my order'', timestamp = 1000,
          status = Delivered, sentiment = Negative, sentimentScore = 0.7\<rparr>,
         \<lparr>m_id = 2, contactId = Some 7, phone = ''15551234567'', direction = Outbound,
          message = ''We are on it'', timestamp = 2000,
          status = Sent, sentiment = Neutral, sentimentScore = 0.5\<rparr>]\<rparr>"

section \<open>Facts about strings\<close>

lemma startsWith_iff: "startsWith s w \<longleftrightarrow> (\<exists>post. s = w @ post)"
  by (induction s w rule: startsWith.induct) auto

lemma includes_iff: "js_includes s w \<longleftrightarrow> (\<exists>pre post. s = pre @ w @ post)"
proof (induction s)
  case Nil
  show ?case by auto
next
  case (Cons c cs)
  show ?case
  proof
    assume "js_includes (c # cs) w"
    then consider "startsWith (c # cs) w" | "js_includes cs w" by auto
    then show "\<exists>pre post. c # cs = pre @ w @ post"
    proof cases
      case 1
      then obtain post where "c # cs = w @ post" by (auto simp: startsWith_iff)
      then have "c # cs = [] @ w @ post" by simp
      then show ?thesis by blast
    next
      case 2
      with Cons obtain pre post where "cs = pre @ w @ post" by auto
      then have "c # cs = (c # pre) @ w @ post" by simp
      then show ?thesis by blast
    qed
  next
    assume "\<exists>pre post. c # cs = pre @ w @ post"
    then obtain pre post where eq: "c # cs = pre @ w @ post" by blast
    show "js_includes (c # cs) w"
    proof (cases pre)
      case Nil
      with eq have "startsWith (c # cs) w" by (auto simp: startsWith_iff)
      then show ?thesis by simp
    next
      case (Cons p ps)
      with eq have "cs = ps @ w @ post" by simp
      with Cons.IH have "js_includes cs w" by blast
      then show ?thesis by simp
    qed
  qed
qed

lemma map_split3:
  "map f xs = p @ w @ q \<Longrightarrow> \<exists>a b c. xs = a @ b @ c \<and> map f b = w"
  by (metis append_eq_map_conv)

lemma includes_single: "js_includes s [c] \<longleftrightarrow> c \<in> set s"
  by (induction s) auto

lemma stripNonDigits_no_at: "\<not> js_includes (stripNonDigits ph) ''@''"
  by (auto simp: includes_single stripNonDigits_def isDigit_def)

lemma strip_example: "stripNonDigits ''+1 (234) 567-8901'' = ''12345678901''"
  by code_simp

lemma trim_nonempty: "trim t \<noteq> [] \<Longrightarrow> t \<noteq> []"
  by (auto simp: trim_def)

section \<open>Facts about letter case\<close>

lemma table_pairs:
  "list_all (\<lambda>(u, l). isUpperCaseLetter u \<and> (of_char l :: nat) = of_char u + 32) upperToLower"
  by code_simp

lemma upperCase_codes:
  "map char_of ([65..<91] @ [192..<215] @ [216..<223] :: nat list) = upperCase"
  by code_simp

lemma upper_listed:
  assumes "isUpperCaseLetter c"
  shows "c \<in> set upperCase"
proof -
  define n where "n = (of_char c :: nat)"
  have "(65 \<le> n \<and> n \<le> 90) \<or> (192 \<le> n \<and> n \<le> 214) \<or> (216 \<le> n \<and> n \<le> 222)"
    using assms unfolding isUpperCaseLetter_def Let_def n_def .
  then have "n \<in> {65..<91} \<union> ({192..<215} \<union> {216..<223})"
    by (simp only: Un_iff atLeastLessThan_iff) arith
  then have "n \<in> set ([65..<91] @ [192..<215] @ [216..<223])"
    by (simp only: set_append set_upt)
  then have "char_of n \<in> set (map char_of ([65..<91] @ [192..<215] @ [216..<223] :: nat list))"
    by (simp only: set_map) (rule imageI)
  moreover have "char_of n = c" by (simp add: n_def)
  ultimately show ?thesis by (simp only: upperCase_codes)
qed

lemma table_domain: "map fst upperToLower = upperCase"
  by code_simp

lemma lower_of_upper:
  assumes "isUpperCaseLetter c"
  shows "(of_char (toLowerChar c) :: nat) = of_char c + 32"
proof -
  have "c \<in> fst ` set upperToLower"
    using upper_listed [OF assms] table_domain by (metis set_map)
  then obtain l where l: "map_of upperToLower c = Some l"
    by (metis map_of_eq_None_iff not_None_eq)
  then have "(c, l) \<in> set upperToLower" by (rule map_of_SomeD)
  with table_pairs have "(of_char l :: nat) = of_char c + 32"
    by (auto simp: list_all_iff)
  with l show ?thesis by (simp add: toLowerChar_def)
qed

lemma lower_of_other:
  assumes "\<not> isUpperCaseLetter c"
  shows "toLowerChar c = c"
proof (cases "map_of upperToLower c")
  case None
  then show ?thesis by (simp add: toLowerChar_def)
next
  case (Some l)
  then have "(c, l) \<in> set upperToLower" by (rule map_of_SomeD)
  with table_pairs have "isUpperCaseLetter c" by (auto simp: list_all_iff)
  with assms show ?thesis by simp
qed

lemma toLowerChar_same:
  assumes "\<not> isUpperCaseLetter k"
  shows "toLowerChar c = k \<longleftrightarrow> sameIgnoringCase c k"
proof (cases "isUpperCaseLetter c")
  case True
  then have n: "(of_char (toLowerChar c) :: nat) = of_char c + 32"
    by (rule lower_of_upper)
  have "c \<noteq> k" using True assms by auto
  moreover have "toLowerChar c = k \<longleftrightarrow> (of_char k :: nat) = of_char c + 32"
    using n by (metis of_char_eq_iff)
  ultimately show ?thesis
    using True assms by (simp add: sameIgnoringCase_def)
next
  case False
  then have "toLowerChar c = c" by (rule lower_of_other)
  then show ?thesis
    using False assms by (auto simp add: sameIgnoringCase_def)
qed

lemma toLowerCase_same:
  "\<forall>k \<in> set w. \<not> isUpperCaseLetter k \<Longrightarrow>
   toLowerCase mid = w \<longleftrightarrow> list_all2 sameIgnoringCase mid w"
proof (induction mid arbitrary: w)
  case Nil
  then show ?case by (auto simp add: toLowerCase_def)
next
  case (Cons c cs)
  show ?case
  proof (cases w)
    case Nil
    then show ?thesis by (simp add: toLowerCase_def)
  next
    case (Cons k ks)
    with Cons.prems have k: "\<not> isUpperCaseLetter k" and ks: "\<forall>k \<in> set ks. \<not> isUpperCaseLetter k"
      by simp_all
    have "toLowerCase cs = ks \<longleftrightarrow> list_all2 sameIgnoringCase cs ks"
      using Cons.IH [OF ks] .
    then show ?thesis
      using toLowerChar_same [OF k, of c] Cons by (simp add: toLowerCase_def)
  qed
qed

lemma includes_lower_iff:
  assumes "\<forall>k \<in> set w. \<not> isUpperCaseLetter k"
  shows "js_includes (toLowerCase text) w \<longleftrightarrow> occursIgnoringCase w text"
proof
  assume "js_includes (toLowerCase text) w"
  then obtain pre post where "map toLowerChar text = pre @ w @ post"
    unfolding includes_iff toLowerCase_def by blast
  from map_split3 [OF this]
  obtain a b c where "text = a @ b @ c" "toLowerCase b = w"
    unfolding toLowerCase_def by blast
  then have "text = a @ b @ c \<and> list_all2 sameIgnoringCase b w"
    using toLowerCase_same [OF assms] by simp
  then show "occursIgnoringCase w text"
    unfolding occursIgnoringCase_def by blast
next
  assume "occursIgnoringCase w text"
  then obtain pre mid post where "text = pre @ mid @ post" "list_all2 sameIgnoringCase mid w"
    unfolding occursIgnoringCase_def by blast
  then have "text = pre @ mid @ post" "toLowerCase mid = w"
    using toLowerCase_same [OF assms] by simp_all
  then have "toLowerCase text = toLowerCase pre @ w @ toLowerCase post"
    by (simp add: toLowerCase_def)
  then show "js_includes (toLowerCase text) w"
    unfolding includes_iff by blast
qed

section \<open>Facts about the send route\<close>

text \<open>
  A connected session, a phone of 10 to 15 digits and a message that is not blank: the
  route reaches the transport, and its answer is decided by the dispatch and by what
  follows it.
\<close>

lemma send_dispatch:
  assumes "isReady s" "whatsappClient s = Some k"
    and "req_phone req = Some ph" "req_message req = Some body" "trim body \<noteq> []"
    and "10 \<le> length (stripNonDigits ph)" "length (stripNonDigits ph) \<le> 15"
  shows "send env s req d =
            (case sendMessage env (stripNonDigits ph @ ''@c.us'') (trim body) of
               Inl sendError \<Rightarrow>
                 (dispatchFailure (connectedOnFailure env) (stripNonDigits ph) sendError, d)
             | Inr messageId \<Rightarrow>
                 (case saveToDatabase env (req_contactId req) (stripNonDigits ph) (trim body) d of
                    (Some e, d') \<Rightarrow> (outerCatch e, d')
                  | (None, d') \<Rightarrow> (SendSuccess messageId ''Message sent successfully'', d')))"
proof -
  have ne: "stripNonDigits ph \<noteq> []" using assms(6) by auto
  then have "ph \<noteq> []" by (auto simp: stripNonDigits_def)
  moreover have "body \<noteq> []" using assms(5) by (rule trim_nonempty)
  ultimately show ?thesis
    unfolding send_def Let_def
    using assms ne stripNonDigits_no_at [of ph]
    by (simp add: truthy_def cong: sum.case_cong prod.case_cong option.case_cong)
qed

lemma send_blank_message:
  assumes "isReady s" "whatsappClient s = Some k"
    and "req_phone req = Some ph" "req_message req = Some body" "body \<noteq> []" "trim body = []"
    and "10 \<le> length (stripNonDigits ph)" "length (stripNonDigits ph) \<le> 15"
  shows "send env s req d = (ErrorResponse 400 ''Message cannot be empty'', d)"
proof -
  have ne: "stripNonDigits ph \<noteq> []" using assms(7) by auto
  then have "ph \<noteq> []" by (auto simp: stripNonDigits_def)
  then show ?thesis
    unfolding send_def Let_def
    using assms ne by (simp add: truthy_def)
qed

lemma example_request:
  "req_phone (requestTo p) = Some p" "req_message (requestTo p) = Some ''hi''"
  "req_contactId (requestTo p) = None" "trim ''hi'' \<noteq> []" "trim ''hi'' = ''hi''"
  by (simp_all add: requestTo_def trim_def isSpace_def)

lemma example_session: "isReady readySession" "whatsappClient readySession \<noteq> None"
  by (simp_all add: readySession_def)

lemma example_phone:
  "10 \<le> length (stripNonDigits ''+1 (234) 567-8901'')"
  "length (stripNonDigits ''+1 (234) 567-8901'') \<le> 15"
  by (simp_all add: strip_example)

section \<open>Facts about the classifier\<close>

lemma distinct_positiveWords: "distinct positiveWords"
  by code_simp

lemma distinct_negativeWords: "distinct negativeWords"
  by code_simp

lemma lowercase_positiveWords:
  "list_all (list_all (\<lambda>k. \<not> isUpperCaseLetter k)) positiveWords"
  by code_simp

lemma lowercase_negativeWords:
  "list_all (list_all (\<lambda>k. \<not> isUpperCaseLetter k)) negativeWords"
  by code_simp

lemma keywordHits_filter:
  assumes d: "distinct ws"
    and l: "list_all (list_all (\<lambda>k. \<not> isUpperCaseLetter k)) ws"
  shows "keywordHits ws text
         = length (filter (\<lambda>word. js_includes (toLowerCase text) word) ws)"
proof -
  have "js_includes (toLowerCase text) w \<longleftrightarrow> occursIgnoringCase w text" if "w \<in> set ws" for w
  proof -
    from l that have "\<forall>k \<in> set w. \<not> isUpperCaseLetter k"
      by (simp add: list_all_iff)
    then show ?thesis by (rule includes_lower_iff)
  qed
  then have "{w. w \<in> set ws \<and> occursIgnoringCase w text}
        = set (filter (\<lambda>word. js_includes (toLowerCase text) word) ws)"
    by auto
  moreover have "distinct (filter (\<lambda>word. js_includes (toLowerCase text) word) ws)"
    using d by simp
  ultimately show ?thesis
    unfolding keywordHits_def using distinct_card by metis
qed

lemma analyzeSentiment_spec: "labelAndScore (analyzeSentiment text) = classifySpec text"
  unfolding analyzeSentiment_def classifySpec_def labelAndScore_def Let_def
    keywordHits_filter [OF distinct_positiveWords lowercase_positiveWords]
    keywordHits_filter [OF distinct_negativeWords lowercase_negativeWords]
  by simp

lemma analyze_thank_you:
  "analyzeSentiment ''Thank you, excellent service!''
   = \<lparr>a_sentiment = Positive, a_score = 0.7\<rparr>"
  by code_simp

lemma analyze_broken:
  "analyzeSentiment ''This is broken, terrible, a complete problem''
   = \<lparr>a_sentiment = Negative, a_score = 0.7\<rparr>"
  by code_simp

lemma analyze_hello:
  "analyzeSentiment ''Hello, what time is it''
   = \<lparr>a_sentiment = Neutral, a_score = 0.5\<rparr>"
  by code_simp

lemma analyze_upper_case:
  "analyzeSentiment ''THANK YOU'' = \<lparr>a_sentiment = Positive, a_score = 0.7\<rparr>"
  "analyzeSentiment ''I want a REFUND'' = \<lparr>a_sentiment = Negative, a_score = 0.7\<rparr>"
  by code_simp+

lemma analyze_repeated:
  "analyzeSentiment ''good good bad'' = \<lparr>a_sentiment = Neutral, a_score = 0.5\<rparr>"
  by code_simp

section \<open>Claims\<close>

text \<open>
  C5, as the classifier has it. The classifier lower-cases the text and counts, for the
  positive and for the negative keyword set, how many keywords of the set occur in the text
  as a substring, letter case ignored: every keyword counts once, however often it occurs.
  More negative keywords give (negative, 0.7), more positive keywords (positive, 0.7), and
  anything else, a tie included, (neutral, 0.5). The three texts of the specification are
  classified as it says; a keyword in capitals counts, and a keyword that occurs twice
  counts once.
\<close>

theorem classifier_counts_keywords:
  "labelAndScore (analyzeSentiment t) = classifySpec t
   \<and> labelAndScore (analyzeSentiment ''Thank you, excellent service!'') = (Positive, 0.7)
   \<and> labelAndScore (analyzeSentiment ''This is broken, terrible, a complete problem'')
       = (Negative, 0.7)
   \<and> labelAndScore (analyzeSentiment ''Hello, what time is it'') = (Neutral, 0.5)
   \<and> labelAndScore (analyzeSentiment ''THANK YOU'') = (Positive, 0.7)
   \<and> labelAndScore (analyzeSentiment ''I want a REFUND'') = (Negative, 0.7)
   \<and> labelAndScore (analyzeSentiment ''good good bad'') = (Neutral, 0.5)"
proof -
  have "labelAndScore (analyzeSentiment ''Thank you, excellent service!'') = (Positive, 0.7)"
    by (simp add: analyze_thank_you labelAndScore_def)
  moreover have "labelAndScore (analyzeSentiment ''This is broken, terrible, a complete problem'')
       = (Negative, 0.7)"
    by (simp add: analyze_broken labelAndScore_def)
  moreover have "labelAndScore (analyzeSentiment ''Hello, what time is it'') = (Neutral, 0.5)"
    by (simp add: analyze_hello labelAndScore_def)
  moreover have "labelAndScore (analyzeSentiment ''THANK YOU'') = (Positive, 0.7)"
    by (simp add: analyze_upper_case labelAndScore_def)
  moreover have "labelAndScore (analyzeSentiment ''I want a REFUND'') = (Negative, 0.7)"
    by (simp add: analyze_upper_case labelAndScore_def)
  moreover have "labelAndScore (analyzeSentiment ''good good bad'') = (Neutral, 0.5)"
    by (simp add: analyze_repeated labelAndScore_def)
  ultimately show ?thesis
    using analyzeSentiment_spec [of t] by blast
qed

theorem classifier_counts_keywords_witness:
  "classifySpec ''THANK YOU'' = (Positive, 0.7)
   \<and> classifySpec ''This Is BROKEN'' = (Negative, 0.7)
   \<and> classifySpec ''Good, but there is a Problem'' = (Neutral, 0.5)
   \<and> classifySpec ''good good bad'' = (Neutral, 0.5)"
proof -
  have "labelAndScore (analyzeSentiment ''This Is BROKEN'') = (Negative, 0.7)"
    unfolding labelAndScore_def by code_simp
  with classifier_counts_keywords [of "''This Is BROKEN''"]
  have a: "classifySpec ''This Is BROKEN'' = (Negative, 0.7)" by simp
  have "labelAndScore (analyzeSentiment ''Good, but there is a Problem'') = (Neutral, 0.5)"
    unfolding labelAndScore_def by code_simp
  with classifier_counts_keywords [of "''Good, but there is a Problem''"]
  have b: "classifySpec ''Good, but there is a Problem'' = (Neutral, 0.5)" by simp
  from classifier_counts_keywords [of "''THANK YOU''"]
  have "labelAndScore (analyzeSentiment ''THANK YOU'') = classifySpec ''THANK YOU''"
    and "labelAndScore (analyzeSentiment ''THANK YOU'') = (Positive, 0.7)"
    by blast+
  then have c: "classifySpec ''THANK YOU'' = (Positive, 0.7)" by simp
  from classifier_counts_keywords [of "''good good bad''"]
  have "labelAndScore (analyzeSentiment ''good good bad'') = classifySpec ''good good bad''"
    and "labelAndScore (analyzeSentiment ''good good bad'') = (Neutral, 0.5)"
    by blast+
  then have d: "classifySpec ''good good bad'' = (Neutral, 0.5)" by simp
  show ?thesis using a b c d by simp
qed

text \<open>
  C5 with every occurrence counted fails: in \<open>good good bad\<close> the positive keywords occur
  twice and the negative ones once, which would make the text positive; the classifier,
  counting one positive and one negative keyword, calls it neutral.
\<close>

theorem repeated_keyword_counts_once:
  "occurrenceCount positiveWords ''good good bad'' = 2
   \<and> occurrenceCount negativeWords ''good good bad'' = 1
   \<and> classifyByOccurrences ''good good bad'' = (Positive, 0.7)
   \<and> labelAndScore (analyzeSentiment ''good good bad'') = (Neutral, 0.5)"
  by code_simp

text \<open>
  C7. Every character of the phone that is not a digit is removed before any check of the
  length. On a connected session, with a message in the request: a phone without a
  digit is refused as missing, one to nine digits are refused with the message that names
  the count as too short, more than fifteen with the message that names it as too long,
  all without a call of the transport; ten to fifteen digits pass, and the answer is the
  one of the check of the message and of the dispatch to the digits followed by
  \<open>@c.us\<close>. The phone
  \<open>+1 (234) 567-8901\<close> becomes the eleven digits \<open>12345678901\<close>.
\<close>

theorem phone_validation:
  assumes "isReady s" "whatsappClient s \<noteq> None"
    and "req_phone req = Some ph"
    and "req_message req = Some body" "body \<noteq> []"
  shows "(ph = [] \<longrightarrow>
            send env s req d = (ErrorResponse 400 ''Phone and message are required'', d))
    \<and> (ph \<noteq> [] \<and> stripNonDigits ph = [] \<longrightarrow>
          send env s req d
          = (ErrorResponse 400 ''Phone number is required and cannot be empty.'', d))
    \<and> (0 < length (stripNonDigits ph) \<and> length (stripNonDigits ph) < 10 \<longrightarrow>
          send env s req d
          = (ErrorResponse 400 (tooShortError (length (stripNonDigits ph))), d))
    \<and> (15 < length (stripNonDigits ph) \<longrightarrow>
          send env s req d
          = (ErrorResponse 400 (tooLongError (length (stripNonDigits ph))), d))
    \<and> (10 \<le> length (stripNonDigits ph) \<and> length (stripNonDigits ph) \<le> 15 \<longrightarrow>
          send env s req d =
            (if trim body = [] then (ErrorResponse 400 ''Message cannot be empty'', d)
             else case sendMessage env (stripNonDigits ph @ ''@c.us'') (trim body) of
               Inl sendError \<Rightarrow>
                 (dispatchFailure (connectedOnFailure env) (stripNonDigits ph) sendError, d)
             | Inr messageId \<Rightarrow>
                 (case saveToDatabase env (req_contactId req) (stripNonDigits ph) (trim body) d of
                    (Some e, d') \<Rightarrow> (outerCatch e, d')
                  | (None, d') \<Rightarrow> (SendSuccess messageId ''Message sent successfully'', d'))))
    \<and> stripNonDigits ''+1 (234) 567-8901'' = ''12345678901''
    \<and> length (stripNonDigits ''+1 (234) 567-8901'') = 11"
proof -
  obtain k where cl: "whatsappClient s = Some k" using assms(2) by auto
  note pre = assms(1) cl assms(3-5)
  have a: "ph = [] \<longrightarrow>
            send env s req d = (ErrorResponse 400 ''Phone and message are required'', d)"
    using pre by (simp add: send_def truthy_def)
  have b: "ph \<noteq> [] \<and> stripNonDigits ph = [] \<longrightarrow>
          send env s req d
          = (ErrorResponse 400 ''Phone number is required and cannot be empty.'', d)"
    using pre by (simp add: send_def truthy_def Let_def)
  have c: "0 < length (stripNonDigits ph) \<and> length (stripNonDigits ph) < 10 \<longrightarrow>
          send env s req d
          = (ErrorResponse 400 (tooShortError (length (stripNonDigits ph))), d)"
    using pre by (auto simp add: send_def truthy_def Let_def stripNonDigits_def)
  have e: "15 < length (stripNonDigits ph) \<longrightarrow>
          send env s req d
          = (ErrorResponse 400 (tooLongError (length (stripNonDigits ph))), d)"
    using pre by (auto simp add: send_def truthy_def Let_def stripNonDigits_def)
  have f: "send env s req d =
            (if trim body = [] then (ErrorResponse 400 ''Message cannot be empty'', d)
             else case sendMessage env (stripNonDigits ph @ ''@c.us'') (trim body) of
               Inl sendError \<Rightarrow>
                 (dispatchFailure (connectedOnFailure env) (stripNonDigits ph) sendError, d)
             | Inr messageId \<Rightarrow>
                 (case saveToDatabase env (req_contactId req) (stripNonDigits ph) (trim body) d of
                    (Some e, d') \<Rightarrow> (outerCatch e, d')
                  | (None, d') \<Rightarrow> (SendSuccess messageId ''Message sent successfully'', d')))"
    if r: "10 \<le> length (stripNonDigits ph) \<and> length (stripNonDigits ph) \<le> 15"
  proof (cases "trim body = []")
    case True
    from r have r1: "10 \<le> length (stripNonDigits ph)" and r2: "length (stripNonDigits ph) \<le> 15"
      by simp_all
    show ?thesis
      using send_blank_message [OF pre True r1 r2, of env d] True by simp
  next
    case False
    from r have r1: "10 \<le> length (stripNonDigits ph)" and r2: "length (stripNonDigits ph) \<le> 15"
      by simp_all
    show ?thesis
      using send_dispatch [OF assms(1) cl assms(3,4) False r1 r2, of env d] False by simp
  qed
  have g: "length (stripNonDigits ''+1 (234) 567-8901'') = 11"
    by (simp add: strip_example)
  show ?thesis using a b c e f g strip_example by blast
qed

theorem phone_validation_witness:
  "fst (send okEnv readySession (requestTo '''') emptyDb)
     = ErrorResponse 400 ''Phone and message are required''
   \<and> fst (send okEnv readySession (requestTo ''abc'') emptyDb)
     = ErrorResponse 400 ''Phone number is required and cannot be empty.''
   \<and> fst (send okEnv readySession (requestTo ''12345'') emptyDb)
     = ErrorResponse 400 (''Phone number is too short (5 digits). Please include country code.''
         @ newline @ ''Example: 1234567890 (US) or 911234567890 (India)'')
   \<and> fst (send okEnv readySession (requestTo ''1234567890123456'') emptyDb)
     = ErrorResponse 400
         ''Phone number is too long (16 digits). Maximum is 15 digits with country code.''
   \<and> fst (send okEnv readySession (requestTo ''+1 (234) 567-8901'') emptyDb)
     = SendSuccess ''MSG1'' ''Message sent successfully''"
proof -
  have r: "isReady readySession" "whatsappClient readySession \<noteq> None"
    by (simp_all add: readySession_def)
  have q: "req_phone (requestTo p) = Some p" "req_message (requestTo p) = Some ''hi''"
    "''hi'' \<noteq> []" for p
    by (simp_all add: requestTo_def)
  have tr: "trim ''hi'' \<noteq> []"
    by (simp add: trim_def isSpace_def)
  note v = phone_validation [OF r q, of _ okEnv emptyDb]
  have 1: "fst (send okEnv readySession (requestTo '''') emptyDb)
     = ErrorResponse 400 ''Phone and message are required''"
    using v [of "''''"] by simp
  have s2: "''abc'' \<noteq> [] \<and> stripNonDigits ''abc'' = []" by code_simp
  have 2: "fst (send okEnv readySession (requestTo ''abc'') emptyDb)
     = ErrorResponse 400 ''Phone number is required and cannot be empty.''"
    using v [of "''abc''"] s2 by simp
  have s3: "0 < length (stripNonDigits ''12345'') \<and> length (stripNonDigits ''12345'') < 10"
    by code_simp
  have t3: "tooShortError (length (stripNonDigits ''12345'')) = ''Phone number is too short (5 digits). Please include country code.''
         @ newline @ ''Example: 1234567890 (US) or 911234567890 (India)''"
    by code_simp
  have 3: "fst (send okEnv readySession (requestTo ''12345'') emptyDb)
     = ErrorResponse 400 (''Phone number is too short (5 digits). Please include country code.''
         @ newline @ ''Example: 1234567890 (US) or 911234567890 (India)'')"
    using v [of "''12345''"] s3 t3 by simp
  have s4: "15 < length (stripNonDigits ''1234567890123456'')" by code_simp
  have t4: "tooLongError (length (stripNonDigits ''1234567890123456''))
     = ''Phone number is too long (16 digits). Maximum is 15 digits with country code.''"
    by code_simp
  have 4: "fst (send okEnv readySession (requestTo ''1234567890123456'') emptyDb)
     = ErrorResponse 400
         ''Phone number is too long (16 digits). Maximum is 15 digits with country code.''"
    using v [of "''1234567890123456''"] s4 t4 by simp
  have r5: "10 \<le> length (stripNonDigits ''+1 (234) 567-8901'') \<and> length (stripNonDigits ''+1 (234) 567-8901'') \<le> 15"
    by code_simp
  have s5: "fst (case sendMessage okEnv (stripNonDigits ''+1 (234) 567-8901'' @ ''@c.us'') (trim ''hi'') of
               Inl sendError \<Rightarrow>
                 (dispatchFailure (connectedOnFailure okEnv) (stripNonDigits ''+1 (234) 567-8901'') sendError, emptyDb)
             | Inr messageId \<Rightarrow>
                 (case saveToDatabase okEnv (req_contactId (requestTo ''+1 (234) 567-8901''))
                         (stripNonDigits ''+1 (234) 567-8901'') (trim ''hi'') emptyDb of
                    (Some e, d') \<Rightarrow> (outerCatch e, d')
                  | (None, d') \<Rightarrow> (SendSuccess messageId ''Message sent successfully'', d')))
            = SendSuccess ''MSG1'' ''Message sent successfully''"
    by code_simp
  have 5: "fst (send okEnv readySession (requestTo ''+1 (234) 567-8901'') emptyDb)
     = SendSuccess ''MSG1'' ''Message sent successfully''"
    using v [of "''+1 (234) 567-8901''"] r5 s5 tr by simp
  show ?thesis using 1 2 3 4 5 by blast
qed

section \<open>Facts about the session\<close>

lemma retryWithBackoff_below_cap:
  "retryCount s < MAX_RETRIES \<Longrightarrow>
   retryWithBackoff s
   = (s\<lparr>retryCount := retryCount s + 1\<rparr>, Some (min (1000 * 2 ^ retryCount s) 10000))"
  by (simp add: retryWithBackoff_def Let_def)

lemma retryWithBackoff_at_cap:
  "MAX_RETRIES \<le> retryCount s \<Longrightarrow>
   retryWithBackoff s = (s\<lparr>isInitializing := False, whatsappClient := None\<rparr>, None)"
  by (simp add: retryWithBackoff_def)

lemma failure_then_timer:
  assumes "retryCount s < MAX_RETRIES"
  shows "initializeRejected s
         = (s\<lparr>isInitializing := False, retryCount := retryCount s + 1\<rparr>,
            Some (min (1000 * 2 ^ retryCount s) 10000))"
    and "retryTimer (fst (initializeRejected s))
         = s\<lparr>isInitializing := True, retryCount := retryCount s + 1,
              whatsappClient := Some (clientsCreated s),
              clientsCreated := Suc (clientsCreated s)\<rparr>"
  using assms
  by (simp_all add: initializeRejected_def retryWithBackoff_below_cap retryTimer_def
      initWhatsApp_def Let_def)

lemma failure_at_cap:
  assumes "MAX_RETRIES \<le> retryCount s"
  shows "initializeRejected s = (s\<lparr>isInitializing := False, whatsappClient := None\<rparr>, None)"
  using assms by (simp add: initializeRejected_def retryWithBackoff_at_cap)

lemma consecutiveFailures_retry:
  assumes "retryCount s < MAX_RETRIES"
  shows "consecutiveFailures (Suc n) s
         = (Some (min (1000 * 2 ^ retryCount s) 10000)
              # fst (consecutiveFailures n
                  (s\<lparr>isInitializing := True, retryCount := retryCount s + 1,
                     whatsappClient := Some (clientsCreated s),
                     clientsCreated := Suc (clientsCreated s)\<rparr>)),
            snd (consecutiveFailures n
                  (s\<lparr>isInitializing := True, retryCount := retryCount s + 1,
                     whatsappClient := Some (clientsCreated s),
                     clientsCreated := Suc (clientsCreated s)\<rparr>)))"
proof -
  have "retryTimer (s\<lparr>isInitializing := False, retryCount := retryCount s + 1\<rparr>)
        = s\<lparr>isInitializing := True, retryCount := retryCount s + 1,
             whatsappClient := Some (clientsCreated s),
             clientsCreated := Suc (clientsCreated s)\<rparr>"
    using failure_then_timer [OF assms] by simp
  then show ?thesis
    by (simp add: failure_then_timer(1) [OF assms] split: prod.split)
qed

lemma consecutiveFailures_cap:
  assumes "MAX_RETRIES \<le> retryCount s"
  shows "consecutiveFailures (Suc n) s
         = ([None], s\<lparr>isInitializing := False, whatsappClient := None\<rparr>)"
  by (simp add: failure_at_cap [OF assms])

lemma four_failures:
  assumes "retryCount s = 0"
  shows "consecutiveFailures 4 s
         = ([Some 1000, Some 2000, Some 4000, None],
            s\<lparr>isInitializing := False, retryCount := 3, whatsappClient := None,
              clientsCreated := clientsCreated s + 3\<rparr>)"
proof -
  have four: "(4::nat) = Suc (Suc (Suc (Suc 0)))" by simp
  show ?thesis
    unfolding four
    using assms
    by (simp add: consecutiveFailures_retry consecutiveFailures_cap MAX_RETRIES_def
        del: consecutiveFailures.simps)
qed

section \<open>Claims about the session\<close>

text \<open>
  C8. A failing initialisation schedules a retry after min(1000 * 2^(attempt - 1), 10000)
  milliseconds, where attempt is the retry counter after its increment, as long as the
  counter is below 3. From a counter of 0, three failures in a row schedule retries after
  1000, 2000 and 4000 ms; the fourth schedules nothing and leaves the session without a
  client and not initialising, its readiness flag as it was. Only a call from outside,
  such as the reconnect route, starts it again, with the counter back at 0.
\<close>

theorem retry_backoff_sequence:
  assumes "retryCount s = 0"
  shows "fst (consecutiveFailures 4 s) = [Some 1000, Some 2000, Some 4000, None]
    \<and> whatsappClient (snd (consecutiveFailures 4 s)) = None
    \<and> \<not> isInitializing (snd (consecutiveFailures 4 s))
    \<and> isReady (snd (consecutiveFailures 4 s)) = isReady s
    \<and> retryCount (snd (consecutiveFailures 4 s)) = MAX_RETRIES
    \<and> (\<forall>t. retryCount t < MAX_RETRIES \<longrightarrow>
          snd (retryWithBackoff t)
          = Some (min (1000 * 2 ^ (retryCount (fst (retryWithBackoff t)) - 1)) 10000)
          \<and> retryCount (fst (retryWithBackoff t)) = retryCount t + 1)
    \<and> (\<forall>t. MAX_RETRIES \<le> retryCount t \<longrightarrow>
          snd (retryWithBackoff t) = None
          \<and> whatsappClient (fst (retryWithBackoff t)) = None
          \<and> \<not> isInitializing (fst (retryWithBackoff t)))
    \<and> whatsappClient (initWhatsApp True (fst (reconnect (snd (consecutiveFailures 4 s)))))
        \<noteq> None
    \<and> retryCount (initWhatsApp True (fst (reconnect (snd (consecutiveFailures 4 s))))) = 0"
proof -
  note four = four_failures [OF assms]
  have a: "\<forall>t. retryCount t < MAX_RETRIES \<longrightarrow>
          snd (retryWithBackoff t)
          = Some (min (1000 * 2 ^ (retryCount (fst (retryWithBackoff t)) - 1)) 10000)
          \<and> retryCount (fst (retryWithBackoff t)) = retryCount t + 1"
    by (simp add: retryWithBackoff_below_cap)
  have b: "\<forall>t. MAX_RETRIES \<le> retryCount t \<longrightarrow>
          snd (retryWithBackoff t) = None
          \<and> whatsappClient (fst (retryWithBackoff t)) = None
          \<and> \<not> isInitializing (fst (retryWithBackoff t))"
    by (simp add: retryWithBackoff_at_cap)
  have c: "whatsappClient (initWhatsApp True (fst (reconnect (snd (consecutiveFailures 4 s)))))
        \<noteq> None"
    "retryCount (initWhatsApp True (fst (reconnect (snd (consecutiveFailures 4 s))))) = 0"
    by (simp_all add: four reconnect_def initWhatsApp_def)
  show ?thesis using a b c by (simp add: four MAX_RETRIES_def)
qed

theorem retry_backoff_sequence_witness:
  "retryCount (initWhatsApp True moduleLoad) = 0
   \<and> consecutiveFailures 4 (initWhatsApp True moduleLoad)
     = ([Some 1000, Some 2000, Some 4000, None],
        \<lparr>whatsappClient = None, qrCodeData = None, isReady = False,
          isInitializing = False, retryCount = 3, clientsCreated = 4\<rparr>)
   \<and> snd (retryWithBackoff retryingSession) = Some 4000
   \<and> snd (retryWithBackoff (fst (retryWithBackoff retryingSession))) = None"
proof -
  have z: "retryCount (initWhatsApp True moduleLoad) = 0"
    by (simp add: initWhatsApp_def moduleLoad_def)
  have run: "consecutiveFailures 4 (initWhatsApp True moduleLoad)
     = ([Some 1000, Some 2000, Some 4000, None],
        \<lparr>whatsappClient = None, qrCodeData = None, isReady = False,
          isInitializing = False, retryCount = 3, clientsCreated = 4\<rparr>)"
    by code_simp
  have lt: "retryCount retryingSession < MAX_RETRIES"
    by (simp add: retryingSession_def MAX_RETRIES_def)
  have ge: "MAX_RETRIES \<le> retryCount (fst (retryWithBackoff retryingSession))"
    by (simp add: retryingSession_def MAX_RETRIES_def retryWithBackoff_def)
  have v: "retryCount (fst (retryWithBackoff retryingSession)) = 3"
    by (simp add: retryingSession_def MAX_RETRIES_def retryWithBackoff_def)
  from retry_backoff_sequence [OF z] lt ge v
  have "snd (retryWithBackoff retryingSession) = Some 4000"
    and "snd (retryWithBackoff (fst (retryWithBackoff retryingSession))) = None"
    by simp_all
  then show ?thesis using z run by simp
qed

text \<open>
  C9. A call of the initialisation while a client exists or an initialisation is under way
  returns at once: the client, the pairing code, the readiness flag and the retry counter
  are what they were, whether or not the call asks for the counter to be reset.
\<close>

theorem start_while_running_is_noop:
  assumes "whatsappClient s \<noteq> None \<or> isInitializing s"
  shows "initWhatsApp resetRetryCount s = s"
  using assms by (auto simp: initWhatsApp_def)

theorem start_while_running_is_noop_witness:
  "whatsappClient retryingSession = Some 1 \<and> isInitializing retryingSession
   \<and> initWhatsApp True retryingSession = retryingSession
   \<and> retryCount (initWhatsApp True retryingSession) = 2
   \<and> initWhatsApp True readySession = readySession"
proof -
  have a: "whatsappClient retryingSession \<noteq> None \<or> isInitializing retryingSession"
    by (simp add: retryingSession_def)
  have b: "whatsappClient readySession \<noteq> None \<or> isInitializing readySession"
    by (simp add: readySession_def)
  have c: "retryCount retryingSession = 2" "whatsappClient retryingSession = Some 1"
    "isInitializing retryingSession"
    by (simp_all add: retryingSession_def)
  show ?thesis
    using start_while_running_is_noop [OF a, of True] start_while_running_is_noop [OF b, of True]
      c
    by simp
qed

section \<open>Facts about the store\<close>

lemma find_Some_mem: "find P xs = Some x \<Longrightarrow> x \<in> set xs \<and> P x"
  by (induction xs) (auto split: if_splits)

lemma find_after_replace:
  "c \<in> set xs \<Longrightarrow> c_id c' = c_id c \<Longrightarrow>
   find (\<lambda>x. c_id x = c_id c) (map (\<lambda>x. if c_id x = c_id c then c' else x) xs) = Some c'"
  by (induction xs) auto

section \<open>Facts about the inbound handler\<close>

lemma onMessage_contacts_created:
  assumes "in_faults env ContactFindOne = None" "in_faults env ContactCreate = None"
    and "find (\<lambda>c. c_phone c = replaceFirst ''@c.us'' '''' (msg_from msg)) (contacts d) = None"
  shows "contacts (snd (onMessage env msg d))
         = contacts d @
           [\<lparr>c_id = newObjectId (map c_id (contacts d)),
             name = contactNameOf env (msg_from msg),
             c_phone = replaceFirst ''@c.us'' '''' (msg_from msg),
             queryStatus = New, unreadCount = 1,
             lastContacted = Some (msg_timestamp msg * 1000)\<rparr>]"
  using assms
  by (simp add: onMessage_def Let_def Contact_findOne_def Contact_create_def Message_create_def
      split: option.split)

lemma onMessage_contacts_updated:
  assumes "in_faults env ContactFindOne = None" "in_faults env ContactSave = None"
    and "find (\<lambda>c. c_phone c = replaceFirst ''@c.us'' '''' (msg_from msg)) (contacts d) = Some c"
  shows "contacts (snd (onMessage env msg d))
         = map (\<lambda>x. if c_id x = c_id c
                    then c\<lparr>unreadCount := unreadCount c + 1,
                           queryStatus := (if queryStatus c = Resolved \<or> queryStatus c = Closed
                                           then New else queryStatus c),
                           lastContacted := Some (msg_timestamp msg * 1000)\<rparr>
                    else x) (contacts d)"
  using assms
  by (simp add: onMessage_def Let_def Contact_findOne_def Contact_save_def Message_create_def
      split: option.split)

lemma onMessage_messages:
  "messages (snd (onMessage env msg d)) = messages d
   \<or> (\<exists>i k. messages (snd (onMessage env msg d))
        = messages d @
          [\<lparr>m_id = i, contactId = Some k,
            phone = replaceFirst ''@c.us'' '''' (msg_from msg),
            direction = Inbound, message = msg_body msg,
            timestamp = msg_timestamp msg * 1000, status = Delivered,
            sentiment = a_sentiment (analyzeSentiment (msg_body msg)),
            sentimentScore = a_score (analyzeSentiment (msg_body msg))\<rparr>])"
  by (auto simp add: onMessage_def Let_def Contact_findOne_def Contact_save_def Contact_create_def
      Message_create_def split: option.split sum.split)

section \<open>Claims about the inbound handler\<close>

text \<open>
  C6. An inbound message whose sender, without the suffix \<open>@c.us\<close>, is the phone of
  no contact creates a contact with that phone, status new, one unread message and the
  time of the message as last contact; its name comes from the lookup of the transport and
  is \<open>Customer\<close> when the lookup throws or finds no name. When a contact has the phone, its
  unread counter grows by one, its last contact becomes the time of the message, and its
  status becomes new exactly when it was resolved or closed; the other contacts stay as
  they are. This is so whenever the reads and writes of the contact do not throw, whatever
  becomes of the message itself.
\<close>

theorem inbound_contact_reconciliation:
  assumes "in_faults env ContactFindOne = None"
    and "ph = replaceFirst ''@c.us'' '''' (msg_from msg)"
  shows "(find (\<lambda>c. c_phone c = ph) (contacts d) = None
            \<and> in_faults env ContactCreate = None \<longrightarrow>
          contacts (snd (onMessage env msg d))
          = contacts d @
            [\<lparr>c_id = newObjectId (map c_id (contacts d)),
              name = contactNameOf env (msg_from msg), c_phone = ph,
              queryStatus = New, unreadCount = 1,
              lastContacted = Some (msg_timestamp msg * 1000)\<rparr>])
    \<and> (\<forall>c. find (\<lambda>c. c_phone c = ph) (contacts d) = Some c
            \<and> in_faults env ContactSave = None \<longrightarrow>
          contacts (snd (onMessage env msg d))
          = map (\<lambda>x. if c_id x = c_id c
                     then c\<lparr>unreadCount := unreadCount c + 1,
                            queryStatus := (if queryStatus c = Resolved \<or> queryStatus c = Closed
                                            then New else queryStatus c),
                            lastContacted := Some (msg_timestamp msg * 1000)\<rparr>
                     else x) (contacts d)
          \<and> find (\<lambda>x. c_id x = c_id c) (contacts (snd (onMessage env msg d)))
            = Some (c\<lparr>unreadCount := unreadCount c + 1,
                      queryStatus := (if queryStatus c = Resolved \<or> queryStatus c = Closed
                                      then New else queryStatus c),
                      lastContacted := Some (msg_timestamp msg * 1000)\<rparr>))
    \<and> (\<forall>e. getContactById env (msg_from msg) = Inl e \<longrightarrow>
          contactNameOf env (msg_from msg) = ''Customer'')
    \<and> (\<forall>info n. getContactById env (msg_from msg) = Inr (Some info)
            \<and> pushname info = Some n \<and> n \<noteq> [] \<longrightarrow>
          contactNameOf env (msg_from msg) = n)"
proof -
  have created: "find (\<lambda>c. c_phone c = ph) (contacts d) = None
            \<and> in_faults env ContactCreate = None \<longrightarrow>
          contacts (snd (onMessage env msg d))
          = contacts d @
            [\<lparr>c_id = newObjectId (map c_id (contacts d)),
              name = contactNameOf env (msg_from msg), c_phone = ph,
              queryStatus = New, unreadCount = 1,
              lastContacted = Some (msg_timestamp msg * 1000)\<rparr>]"
    using onMessage_contacts_created [of env msg d] assms by simp
  have updated: "contacts (snd (onMessage env msg d))
          = map (\<lambda>x. if c_id x = c_id c
                     then c\<lparr>unreadCount := unreadCount c + 1,
                            queryStatus := (if queryStatus c = Resolved \<or> queryStatus c = Closed
                                            then New else queryStatus c),
                            lastContacted := Some (msg_timestamp msg * 1000)\<rparr>
                     else x) (contacts d)
          \<and> find (\<lambda>x. c_id x = c_id c) (contacts (snd (onMessage env msg d)))
            = Some (c\<lparr>unreadCount := unreadCount c + 1,
                      queryStatus := (if queryStatus c = Resolved \<or> queryStatus c = Closed
                                      then New else queryStatus c),
                      lastContacted := Some (msg_timestamp msg * 1000)\<rparr>)"
    if f: "find (\<lambda>c. c_phone c = ph) (contacts d) = Some c"
      and s: "in_faults env ContactSave = None" for c
  proof -
    have m: "c \<in> set (contacts d)" using find_Some_mem [OF f] by simp
    have u: "contacts (snd (onMessage env msg d))
          = map (\<lambda>x. if c_id x = c_id c
                     then c\<lparr>unreadCount := unreadCount c + 1,
                            queryStatus := (if queryStatus c = Resolved \<or> queryStatus c = Closed
                                            then New else queryStatus c),
                            lastContacted := Some (msg_timestamp msg * 1000)\<rparr>
                     else x) (contacts d)"
      using onMessage_contacts_updated [of env msg d c] assms f s by simp
    show ?thesis
      unfolding u using find_after_replace [OF m] by simp
  qed
  have thrown: "\<forall>e. getContactById env (msg_from msg) = Inl e \<longrightarrow>
          contactNameOf env (msg_from msg) = ''Customer''"
    by (simp add: contactNameOf_def)
  have named: "\<forall>info n. getContactById env (msg_from msg) = Inr (Some info)
            \<and> pushname info = Some n \<and> n \<noteq> [] \<longrightarrow>
          contactNameOf env (msg_from msg) = n"
    by (simp add: contactNameOf_def truthy_def)
  show ?thesis using created updated thrown named by blast
qed

theorem inbound_contact_reconciliation_witness:
  "snd (onMessage inboundEnv orderProblem emptyDb)
   = \<lparr>contacts = [\<lparr>c_id = 1, name = ''Customer'', c_phone = ''15551234567'',
        queryStatus = New, unreadCount = 1, lastContacted = Some 1700000000000\<rparr>],
      messages = [\<lparr>m_id = 1, contactId = Some 1, phone = ''15551234567'',
        direction = Inbound, message = ''I have a problem with my order'',
        timestamp = 1700000000000, status = Delivered, sentiment = Negative,
        sentimentScore = 0.7\<rparr>]\<rparr>
   \<and> contacts (snd (onMessage inboundEnv orderProblem resolvedDb))
     = [\<lparr>c_id = 7, name = ''Asha'', c_phone = ''15551234567'',
        queryStatus = New, unreadCount = 3, lastContacted = Some 1700000000000\<rparr>]"
proof -
  have f: "in_faults inboundEnv ContactFindOne = None"
    "in_faults inboundEnv ContactCreate = None" "in_faults inboundEnv ContactSave = None"
    by (simp_all add: inboundEnv_def noFaults_def)
  have p: "''15551234567'' = replaceFirst ''@c.us'' '''' (msg_from orderProblem)"
    by code_simp
  have absent: "find (\<lambda>c. c_phone c = ''15551234567'') (contacts emptyDb) = None"
    by (simp add: emptyDb_def)
  have present: "find (\<lambda>c. c_phone c = ''15551234567'') (contacts resolvedDb)
    = Some \<lparr>c_id = 7, name = ''Asha'', c_phone = ''15551234567'',
        queryStatus = Resolved, unreadCount = 2, lastContacted = Some 1000\<rparr>"
    by (simp add: resolvedDb_def)
  have n: "contactNameOf inboundEnv (msg_from orderProblem) = ''Customer''"
    using inbound_contact_reconciliation [OF f(1) p, of emptyDb]
    by (simp add: inboundEnv_def)
  have a: "contacts (snd (onMessage inboundEnv orderProblem emptyDb))
     = [\<lparr>c_id = 1, name = ''Customer'', c_phone = ''15551234567'',
        queryStatus = New, unreadCount = 1, lastContacted = Some 1700000000000\<rparr>]"
    using inbound_contact_reconciliation [OF f(1) p, of emptyDb] absent f(2) n
    by (simp add: emptyDb_def newObjectId_def orderProblem_def)
  have b: "contacts (snd (onMessage inboundEnv orderProblem resolvedDb))
     = [\<lparr>c_id = 7, name = ''Asha'', c_phone = ''15551234567'',
        queryStatus = New, unreadCount = 3, lastContacted = Some 1700000000000\<rparr>]"
    using inbound_contact_reconciliation [OF f(1) p, of resolvedDb] present f(3)
    by (simp add: resolvedDb_def orderProblem_def)
  have m: "messages (snd (onMessage inboundEnv orderProblem emptyDb))
     = [\<lparr>m_id = 1, contactId = Some 1, phone = ''15551234567'',
        direction = Inbound, message = ''I have a problem with my order'',
        timestamp = 1700000000000, status = Delivered, sentiment = Negative,
        sentimentScore = 0.7\<rparr>]"
    by code_simp
  show ?thesis using a b m by (simp add: db.equality)
qed

section \<open>Facts about the persistence of a sent message\<close>

lemma find_after_update:
  "c \<in> set xs \<Longrightarrow> distinct (map c_id xs) \<Longrightarrow> c_id (f c) = c_id c \<Longrightarrow>
   find (\<lambda>x. c_id x = c_id c) (map (\<lambda>x. if c_id x = c_id c then f x else x) xs) = Some (f c)"
proof (induction xs)
  case Nil
  then show ?case by simp
next
  case (Cons x xs)
  show ?case
  proof (cases "c_id x = c_id c")
    case True
    have "x = c"
    proof (rule ccontr)
      assume "x \<noteq> c"
      with Cons.prems(1) have "c \<in> set xs" by simp
      then have "c_id c \<in> set (map c_id xs)" by simp
      with True Cons.prems(2) show False by simp
    qed
    with Cons.prems(3) show ?thesis by simp
  next
    case False
    with Cons.prems have "c \<in> set xs" "distinct (map c_id xs)" by auto
    with Cons.IH Cons.prems(3) False show ?thesis by simp
  qed
qed

lemma Message_create_Inr:
  "Message_create f n md d = Inr d' \<Longrightarrow>
   contacts d' = contacts d
   \<and> messages d' = messages d @
       [\<lparr>m_id = newObjectId (map m_id (messages d)), contactId = md_contactId md,
         phone = md_phone md, direction = md_direction md, message = md_message md,
         timestamp = (case md_timestamp md of Some t \<Rightarrow> t | None \<Rightarrow> n),
         status = (case md_status md of Some st \<Rightarrow> st | None \<Rightarrow> Sent),
         sentiment = (case md_sentiment md of Some l \<Rightarrow> l | None \<Rightarrow> Neutral),
         sentimentScore = (case md_sentimentScore md of Some x \<Rightarrow> x | None \<Rightarrow> 0.5)\<rparr>]"
  by (auto simp add: Message_create_def split: option.splits if_splits)

lemma Contact_create_Inr:
  "Contact_create f nm ph qs unread lastC d = Inr (c, d') \<Longrightarrow>
   messages d' = messages d \<and> contacts d' = contacts d @ [c]
   \<and> c = \<lparr>c_id = newObjectId (map c_id (contacts d)), name = nm, c_phone = ph,
           queryStatus = qs, unreadCount = unread, lastContacted = lastC\<rparr>"
  by (auto simp add: Contact_create_def Let_def split: option.splits)

lemma Contact_findByIdAndUpdate_Inr:
  "Contact_findByIdAndUpdate f i u d = Inr d' \<Longrightarrow>
   messages d' = messages d
   \<and> contacts d' = map (\<lambda>x. if c_id x = i then applyUpdate u x else x) (contacts d)"
  by (auto simp add: Contact_findByIdAndUpdate_def split: option.splits)

lemma saveToDatabase_messages:
  "messages (snd (saveToDatabase env cid p t d)) = messages d
   \<or> (\<exists>i k. messages (snd (saveToDatabase env cid p t d))
        = messages d @
          [\<lparr>m_id = i, contactId = Some k, phone = p, direction = Outbound, message = t,
            timestamp = nowMessage env, status = Sent, sentiment = Neutral,
            sentimentScore = 0.5\<rparr>])"
  unfolding saveToDatabase_def Let_def
  by (auto split: sum.split option.split prod.split
      dest!: Message_create_Inr Contact_create_Inr Contact_findByIdAndUpdate_Inr)

lemma send_messages:
  "messages (snd (send env s req d)) = messages d
   \<or> (\<exists>i k p t. messages (snd (send env s req d))
        = messages d @
          [\<lparr>m_id = i, contactId = Some k, phone = p, direction = Outbound, message = t,
            timestamp = nowMessage env, status = Sent, sentiment = Neutral,
            sentimentScore = 0.5\<rparr>])"
proof -
  have "snd (send env s req d) = d
        \<or> snd (send env s req d)
          = snd (saveToDatabase env (req_contactId req) (stripNonDigits (the (req_phone req)))
                  (trim (the (req_message req))) d)"
    by (simp add: send_def Let_def split: sum.split option.split prod.split)
  then show ?thesis
    using saveToDatabase_messages by metis
qed

lemma saveToDatabase_found:
  assumes "faults env = noFaults" "p \<noteq> []" "t \<noteq> []"
    and "(case cid of Some i \<Rightarrow> find (\<lambda>c. c_id c = i) (contacts d)
          | None \<Rightarrow> find (\<lambda>c. c_phone c = p) (contacts d)) = Some c"
  shows "saveToDatabase env cid p t d
         = (None,
            \<lparr>contacts =
               map (\<lambda>x. if c_id x = c_id c
                         then x\<lparr>lastContacted := Some (nowUpdate env),
                                queryStatus := (if queryStatus c = New then InProgress
                                                else queryStatus x)\<rparr>
                         else x) (contacts d),
             messages = messages d @
               [\<lparr>m_id = newObjectId (map m_id (messages d)), contactId = Some (c_id c),
                 phone = p, direction = Outbound, message = t, timestamp = nowMessage env,
                 status = Sent, sentiment = Neutral, sentimentScore = 0.5\<rparr>]\<rparr>)"
  using assms
  by (cases cid)
    (auto simp add: saveToDatabase_def Let_def noFaults_def Contact_findById_def
      Contact_findOne_def Contact_findByIdAndUpdate_def Message_create_def applyUpdate_def
      intro!: db.equality)

lemma saveToDatabase_created:
  assumes "faults env = noFaults" "p \<noteq> []" "t \<noteq> []"
    and "(case cid of Some i \<Rightarrow> find (\<lambda>c. c_id c = i) (contacts d)
          | None \<Rightarrow> find (\<lambda>c. c_phone c = p) (contacts d)) = None"
  shows "saveToDatabase env cid p t d
         = (None,
            \<lparr>contacts = contacts d @
               [\<lparr>c_id = newObjectId (map c_id (contacts d)),
                 name = ''Customer '' @ drop (length p - 4) p, c_phone = p,
                 queryStatus = New, unreadCount = 0,
                 lastContacted = defaultLastContacted env\<rparr>],
             messages = messages d @
               [\<lparr>m_id = newObjectId (map m_id (messages d)),
                 contactId = Some (newObjectId (map c_id (contacts d))),
                 phone = p, direction = Outbound, message = t, timestamp = nowMessage env,
                 status = Sent, sentiment = Neutral, sentimentScore = 0.5\<rparr>]\<rparr>)"
  using assms
  by (cases cid)
    (auto simp add: saveToDatabase_def Let_def noFaults_def Contact_findById_def
      Contact_findOne_def Contact_create_def Message_create_def
      intro!: db.equality)


section \<open>Claims about the send route\<close>

text \<open>
  C10. Every message the send route adds to the store has direction outbound, status sent,
  sentiment neutral and sentiment score 0.5, the last two being the defaults of the schema:
  the route hands neither field to \<open>Message.create\<close>. The inbound handler adds inbound
  messages only, so a message added by either pipeline whose sentiment fields differ from
  the defaults is inbound. Neither pipeline touches the messages already stored.
\<close>

theorem outbound_messages_hold_defaults:
  "take (length (messages d)) (messages (snd (send env s req d))) = messages d
   \<and> (\<forall>m \<in> set (newMessages d (snd (send env s req d))).
         direction m = Outbound \<and> status m = Sent
         \<and> sentiment m = Neutral \<and> sentimentScore m = 0.5)
   \<and> take (length (messages d)) (messages (snd (onMessage ienv msg d))) = messages d
   \<and> (\<forall>m \<in> set (newMessages d (snd (onMessage ienv msg d))). direction m = Inbound)
   \<and> (\<forall>m \<in> set (newMessages d (snd (send env s req d)))
             \<union> set (newMessages d (snd (onMessage ienv msg d))).
         sentiment m \<noteq> Neutral \<or> sentimentScore m \<noteq> 0.5 \<longrightarrow> direction m = Inbound)"
proof -
  have out: "take (length (messages d)) (messages (snd (send env s req d))) = messages d
     \<and> (\<forall>m \<in> set (newMessages d (snd (send env s req d))).
         direction m = Outbound \<and> status m = Sent
         \<and> sentiment m = Neutral \<and> sentimentScore m = 0.5)"
    using send_messages [of env s req d] by (auto simp: newMessages_def)
  have inb: "take (length (messages d)) (messages (snd (onMessage ienv msg d))) = messages d
     \<and> (\<forall>m \<in> set (newMessages d (snd (onMessage ienv msg d))). direction m = Inbound)"
    using onMessage_messages [of ienv msg d] by (auto simp: newMessages_def)
  show ?thesis using out inb by auto
qed

theorem outbound_messages_hold_defaults_witness:
  "map direction (newMessages emptyDb
      (snd (send okEnv readySession (requestTo ''+1 (234) 567-8901'') emptyDb))) = [Outbound]
   \<and> map status (newMessages emptyDb
      (snd (send okEnv readySession (requestTo ''+1 (234) 567-8901'') emptyDb))) = [Sent]
   \<and> map sentiment (newMessages emptyDb
      (snd (send okEnv readySession (requestTo ''+1 (234) 567-8901'') emptyDb))) = [Neutral]
   \<and> map sentimentScore (newMessages emptyDb
      (snd (send okEnv readySession (requestTo ''+1 (234) 567-8901'') emptyDb))) = [0.5]
   \<and> map direction (newMessages emptyDb (snd (onMessage inboundEnv orderProblem emptyDb)))
     = [Inbound]
   \<and> map sentiment (newMessages emptyDb (snd (onMessage inboundEnv orderProblem emptyDb)))
     = [Negative]"
proof -
  have "length (newMessages emptyDb
      (snd (send okEnv readySession (requestTo ''+1 (234) 567-8901'') emptyDb))) = 1"
    by code_simp
  then obtain m where m: "newMessages emptyDb
      (snd (send okEnv readySession (requestTo ''+1 (234) 567-8901'') emptyDb)) = [m]"
    by (auto simp: length_Suc_conv)
  have "direction m = Outbound \<and> status m = Sent
         \<and> sentiment m = Neutral \<and> sentimentScore m = 0.5"
    using outbound_messages_hold_defaults
      [of emptyDb okEnv readySession "requestTo ''+1 (234) 567-8901''" inboundEnv orderProblem]
      m
    by simp
  then have a: "map direction (newMessages emptyDb
      (snd (send okEnv readySession (requestTo ''+1 (234) 567-8901'') emptyDb))) = [Outbound]"
    "map status (newMessages emptyDb
      (snd (send okEnv readySession (requestTo ''+1 (234) 567-8901'') emptyDb))) = [Sent]"
    "map sentiment (newMessages emptyDb
      (snd (send okEnv readySession (requestTo ''+1 (234) 567-8901'') emptyDb))) = [Neutral]"
    "map sentimentScore (newMessages emptyDb
      (snd (send okEnv readySession (requestTo ''+1 (234) 567-8901'') emptyDb))) = [0.5]"
    using m by simp_all
  have c: "map direction (newMessages emptyDb (snd (onMessage inboundEnv orderProblem emptyDb)))
     = [Inbound]"
    by code_simp
  have e: "map sentiment (newMessages emptyDb (snd (onMessage inboundEnv orderProblem emptyDb)))
     = [Negative]"
    by code_simp
  show ?thesis using a c e by simp
qed

text \<open>
  C3, as the route has it. After a dispatch that succeeded, with a store that does not
  throw: the contact is looked up by \<open>contactId\<close> when the request has one, by the digits of
  the phone otherwise. When the lookup finds a contact, an outbound message with status sent
  is stored under its id, its last contact becomes the time of the update and its status
  goes from new to in-progress (any other status stays). When the lookup finds none, a
  contact named \<open>Customer\<close> and the last four digits is created with status new and no unread
  message, and the message is stored under the new id; this contact is not updated: its
  status stays new, and its last contact is what the schema gives a new document.
\<close>

theorem send_persists_and_updates_contact:
  assumes "isReady s" "whatsappClient s \<noteq> None"
    and "req_phone req = Some ph" "req_message req = Some body" "trim body \<noteq> []"
    and "10 \<le> length (stripNonDigits ph)" "length (stripNonDigits ph) \<le> 15"
    and "sendMessage env (stripNonDigits ph @ ''@c.us'') (trim body) = Inr messageId"
    and "faults env = noFaults"
    and "found = (case req_contactId req of
                    Some i \<Rightarrow> find (\<lambda>c. c_id c = i) (contacts d)
                  | None \<Rightarrow> find (\<lambda>c. c_phone c = stripNonDigits ph) (contacts d))"
  shows "fst (send env s req d) = SendSuccess messageId ''Message sent successfully''
    \<and> (\<forall>c. found = Some c \<longrightarrow>
          snd (send env s req d)
          = \<lparr>contacts =
               map (\<lambda>x. if c_id x = c_id c
                         then x\<lparr>lastContacted := Some (nowUpdate env),
                                queryStatus := (if queryStatus c = New then InProgress
                                                else queryStatus x)\<rparr>
                         else x) (contacts d),
             messages = messages d @
               [\<lparr>m_id = newObjectId (map m_id (messages d)), contactId = Some (c_id c),
                 phone = stripNonDigits ph, direction = Outbound, message = trim body,
                 timestamp = nowMessage env, status = Sent, sentiment = Neutral,
                 sentimentScore = 0.5\<rparr>]\<rparr>
          \<and> (distinct (map c_id (contacts d)) \<longrightarrow>
              find (\<lambda>x. c_id x = c_id c) (contacts (snd (send env s req d)))
              = Some (c\<lparr>lastContacted := Some (nowUpdate env),
                        queryStatus := (if queryStatus c = New then InProgress
                                        else queryStatus c)\<rparr>)))
    \<and> (found = None \<longrightarrow>
          snd (send env s req d)
          = \<lparr>contacts = contacts d @
               [\<lparr>c_id = newObjectId (map c_id (contacts d)),
                 name = ''Customer '' @ drop (length (stripNonDigits ph) - 4) (stripNonDigits ph),
                 c_phone = stripNonDigits ph, queryStatus = New, unreadCount = 0,
                 lastContacted = defaultLastContacted env\<rparr>],
             messages = messages d @
               [\<lparr>m_id = newObjectId (map m_id (messages d)),
                 contactId = Some (newObjectId (map c_id (contacts d))),
                 phone = stripNonDigits ph, direction = Outbound, message = trim body,
                 timestamp = nowMessage env, status = Sent, sentiment = Neutral,
                 sentimentScore = 0.5\<rparr>]\<rparr>)"
proof -
  obtain k where cl: "whatsappClient s = Some k" using assms(2) by auto
  have p: "stripNonDigits ph \<noteq> []" using assms(6) by auto
  note t = assms(5)
  have sd: "send env s req d
        = (case saveToDatabase env (req_contactId req) (stripNonDigits ph) (trim body) d of
             (Some e, d') \<Rightarrow> (outerCatch e, d')
           | (None, d') \<Rightarrow> (SendSuccess messageId ''Message sent successfully'', d'))"
    using send_dispatch [OF assms(1) cl assms(3-7), of env d] assms(8) by simp
  have some: "snd (send env s req d)
          = \<lparr>contacts =
               map (\<lambda>x. if c_id x = c_id c
                         then x\<lparr>lastContacted := Some (nowUpdate env),
                                queryStatus := (if queryStatus c = New then InProgress
                                                else queryStatus x)\<rparr>
                         else x) (contacts d),
             messages = messages d @
               [\<lparr>m_id = newObjectId (map m_id (messages d)), contactId = Some (c_id c),
                 phone = stripNonDigits ph, direction = Outbound, message = trim body,
                 timestamp = nowMessage env, status = Sent, sentiment = Neutral,
                 sentimentScore = 0.5\<rparr>]\<rparr>
          \<and> fst (send env s req d) = SendSuccess messageId ''Message sent successfully''
          \<and> (distinct (map c_id (contacts d)) \<longrightarrow>
              find (\<lambda>x. c_id x = c_id c) (contacts (snd (send env s req d)))
              = Some (c\<lparr>lastContacted := Some (nowUpdate env),
                        queryStatus := (if queryStatus c = New then InProgress
                                        else queryStatus c)\<rparr>))"
    if f: "found = Some c" for c
  proof -
    have l: "(case req_contactId req of
                    Some i \<Rightarrow> find (\<lambda>c. c_id c = i) (contacts d)
                  | None \<Rightarrow> find (\<lambda>c. c_phone c = stripNonDigits ph) (contacts d)) = Some c"
      using f assms(10) by simp
    have m: "c \<in> set (contacts d)"
      using l by (auto split: option.splits dest: find_Some_mem)
    note sv = saveToDatabase_found [OF assms(9) p t l]
    have a: "snd (send env s req d)
          = \<lparr>contacts =
               map (\<lambda>x. if c_id x = c_id c
                         then x\<lparr>lastContacted := Some (nowUpdate env),
                                queryStatus := (if queryStatus c = New then InProgress
                                                else queryStatus x)\<rparr>
                         else x) (contacts d),
             messages = messages d @
               [\<lparr>m_id = newObjectId (map m_id (messages d)), contactId = Some (c_id c),
                 phone = stripNonDigits ph, direction = Outbound, message = trim body,
                 timestamp = nowMessage env, status = Sent, sentiment = Neutral,
                 sentimentScore = 0.5\<rparr>]\<rparr>"
      and b: "fst (send env s req d) = SendSuccess messageId ''Message sent successfully''"
      unfolding sd sv by simp_all
    have "find (\<lambda>x. c_id x = c_id c) (contacts (snd (send env s req d)))
              = Some (c\<lparr>lastContacted := Some (nowUpdate env),
                        queryStatus := (if queryStatus c = New then InProgress
                                        else queryStatus c)\<rparr>)"
      if dist: "distinct (map c_id (contacts d))"
      unfolding a
      using find_after_update [OF m dist,
          of "\<lambda>x. x\<lparr>lastContacted := Some (nowUpdate env),
                     queryStatus := (if queryStatus c = New then InProgress
                                     else queryStatus x)\<rparr>"]
      by simp
    with a b show ?thesis by blast
  qed
  have none: "snd (send env s req d)
          = \<lparr>contacts = contacts d @
               [\<lparr>c_id = newObjectId (map c_id (contacts d)),
                 name = ''Customer '' @ drop (length (stripNonDigits ph) - 4) (stripNonDigits ph),
                 c_phone = stripNonDigits ph, queryStatus = New, unreadCount = 0,
                 lastContacted = defaultLastContacted env\<rparr>],
             messages = messages d @
               [\<lparr>m_id = newObjectId (map m_id (messages d)),
                 contactId = Some (newObjectId (map c_id (contacts d))),
                 phone = stripNonDigits ph, direction = Outbound, message = trim body,
                 timestamp = nowMessage env, status = Sent, sentiment = Neutral,
                 sentimentScore = 0.5\<rparr>]\<rparr>
          \<and> fst (send env s req d) = SendSuccess messageId ''Message sent successfully''"
    if f: "found = None"
  proof -
    have l: "(case req_contactId req of
                    Some i \<Rightarrow> find (\<lambda>c. c_id c = i) (contacts d)
                  | None \<Rightarrow> find (\<lambda>c. c_phone c = stripNonDigits ph) (contacts d)) = None"
      using f assms(10) by simp
    show ?thesis
      unfolding sd saveToDatabase_created [OF assms(9) p t l] by simp
  qed
  have ok: "fst (send env s req d) = SendSuccess messageId ''Message sent successfully''"
    using some none by (cases found) auto
  show ?thesis using some none ok by blast
qed

theorem send_persists_and_updates_contact_witness:
  "send okEnv readySession (requestTo ''+1 (234) 567-8901'') newContactDb
   = (SendSuccess ''MSG1'' ''Message sent successfully'',
      \<lparr>contacts = [\<lparr>c_id = 7, name = ''Asha'', c_phone = ''12345678901'',
          queryStatus = InProgress, unreadCount = 1, lastContacted = Some 5001\<rparr>],
        messages = [\<lparr>m_id = 1, contactId = Some 7, phone = ''12345678901'',
          direction = Outbound, message = ''hi'', timestamp = 5000, status = Sent,
          sentiment = Neutral, sentimentScore = 0.5\<rparr>]\<rparr>)
   \<and> send okEnv readySession (requestTo ''+1 (234) 567-8901'') emptyDb
   = (SendSuccess ''MSG1'' ''Message sent successfully'',
      \<lparr>contacts = [\<lparr>c_id = 1, name = ''Customer 8901'', c_phone = ''12345678901'',
          queryStatus = New, unreadCount = 0, lastContacted = None\<rparr>],
        messages = [\<lparr>m_id = 1, contactId = Some 1, phone = ''12345678901'',
          direction = Outbound, message = ''hi'', timestamp = 5000, status = Sent,
          sentiment = Neutral, sentimentScore = 0.5\<rparr>]\<rparr>)"
proof -
  have disp: "sendMessage okEnv (stripNonDigits ''+1 (234) 567-8901'' @ ''@c.us'') (trim ''hi'')
              = Inr ''MSG1''"
    by (simp add: okEnv_def)
  have nf: "faults okEnv = noFaults" by (simp add: okEnv_def)
  note T = send_persists_and_updates_contact
    [OF example_session example_request(1,2,4) example_phone disp nf refl]
  have f1: "(case req_contactId (requestTo ''+1 (234) 567-8901'') of
              Some i \<Rightarrow> find (\<lambda>c. c_id c = i) (contacts newContactDb)
            | None \<Rightarrow> find (\<lambda>c. c_phone c = stripNonDigits ''+1 (234) 567-8901'')
                       (contacts newContactDb))
     = Some \<lparr>c_id = 7, name = ''Asha'', c_phone = ''12345678901'',
          queryStatus = New, unreadCount = 1, lastContacted = Some 1000\<rparr>"
    by (simp add: example_request strip_example newContactDb_def)
  have f2: "(case req_contactId (requestTo ''+1 (234) 567-8901'') of
              Some i \<Rightarrow> find (\<lambda>c. c_id c = i) (contacts emptyDb)
            | None \<Rightarrow> find (\<lambda>c. c_phone c = stripNonDigits ''+1 (234) 567-8901'')
                       (contacts emptyDb)) = None"
    by (simp add: example_request emptyDb_def)
  have a: "send okEnv readySession (requestTo ''+1 (234) 567-8901'') newContactDb
   = (SendSuccess ''MSG1'' ''Message sent successfully'',
      \<lparr>contacts = [\<lparr>c_id = 7, name = ''Asha'', c_phone = ''12345678901'',
          queryStatus = InProgress, unreadCount = 1, lastContacted = Some 5001\<rparr>],
        messages = [\<lparr>m_id = 1, contactId = Some 7, phone = ''12345678901'',
          direction = Outbound, message = ''hi'', timestamp = 5000, status = Sent,
          sentiment = Neutral, sentimentScore = 0.5\<rparr>]\<rparr>)"
    using T [of newContactDb] f1
    by (simp add: prod_eq_iff newContactDb_def okEnv_def strip_example example_request
        newObjectId_def)
  have b: "send okEnv readySession (requestTo ''+1 (234) 567-8901'') emptyDb
   = (SendSuccess ''MSG1'' ''Message sent successfully'',
      \<lparr>contacts = [\<lparr>c_id = 1, name = ''Customer 8901'', c_phone = ''12345678901'',
          queryStatus = New, unreadCount = 0, lastContacted = None\<rparr>],
        messages = [\<lparr>m_id = 1, contactId = Some 1, phone = ''12345678901'',
          direction = Outbound, message = ''hi'', timestamp = 5000, status = Sent,
          sentiment = Neutral, sentimentScore = 0.5\<rparr>]\<rparr>)"
    using T [of emptyDb] f2
    by (simp add: prod_eq_iff emptyDb_def okEnv_def strip_example example_request
        newObjectId_def)
  show ?thesis using a b by simp
qed

text \<open>
  C3 as the specification words it fails for a phone no contact has: the dispatch succeeds,
  the contact is created, and after the send its status is new, not in-progress.
\<close>

theorem created_contact_stays_new:
  "fst (send okEnv readySession (requestTo ''+1 (234) 567-8901'') emptyDb)
   = SendSuccess ''MSG1'' ''Message sent successfully''
   \<and> contacts (snd (send okEnv readySession (requestTo ''+1 (234) 567-8901'') emptyDb))
   = [\<lparr>c_id = 1, name = ''Customer 8901'', c_phone = ''12345678901'',
       queryStatus = New, unreadCount = 0, lastContacted = None\<rparr>]"
  by code_simp




section \<open>Facts about the aggregator\<close>

lemma sum_list_indicator:
  "sum_list (map (\<lambda>m. if P m then 1 else 0) xs) = length (filter P xs)"
  by (induction xs) auto

lemma groupStage_unread:
  "g_unreadCount (groupStage ms k)
   = length (filter (\<lambda>m. contactId m = k \<and> direction m = Inbound) ms)"
  by (simp add: groupStage_def groupOf_def sum_list_indicator)

lemma aggregate_member:
  assumes "g \<in> set (aggregate ms)"
  shows "g = groupStage ms (g_id g)" and "g_id g \<in> contactId ` set ms"
proof -
  from assms obtain k where k: "k \<in> contactId ` set ms" "g = groupStage ms k"
    by (auto simp: aggregate_def)
  then have "g_id g = k" by (simp add: groupStage_def)
  with k show "g = groupStage ms (g_id g)" and "g_id g \<in> contactId ` set ms" by simp_all
qed

lemma latestOf_None: "latestOf ms = None \<longleftrightarrow> ms = []"
  by (cases ms) (auto split: option.split)

lemma latestOf_Some:
  "latestOf ms = Some m \<Longrightarrow> m \<in> set ms \<and> (\<forall>m' \<in> set ms. timestamp m' \<le> timestamp m)"
proof (induction ms arbitrary: m)
  case Nil
  then show ?case by simp
next
  case (Cons x xs)
  show ?case
  proof (cases "latestOf xs")
    case None
    then have "xs = []" by (simp add: latestOf_None)
    with Cons.prems None show ?thesis by simp
  next
    case (Some y)
    with Cons.IH have y: "y \<in> set xs" "\<forall>m' \<in> set xs. timestamp m' \<le> timestamp y" by auto
    show ?thesis
    proof (cases "timestamp y > timestamp x")
      case True
      with Some Cons.prems have "m = y" by simp
      with y True show ?thesis by auto
    next
      case False
      with Some Cons.prems have "m = x" by simp
      with y False show ?thesis by fastforce
    qed
  qed
qed

lemma group_latest:
  assumes "g \<in> set (aggregate (messages d))"
  obtains m where "latestOf (groupOf (g_id g) (messages d)) = Some m"
    and "m \<in> set (messages d)" and "contactId m = g_id g"
    and "\<forall>m' \<in> set (messages d). contactId m' = g_id g \<longrightarrow> timestamp m' \<le> timestamp m"
proof -
  from aggregate_member(2) [OF assms]
  have "groupOf (g_id g) (messages d) \<noteq> []"
    by (auto simp: groupOf_def filter_empty_conv)
  then obtain m where m: "latestOf (groupOf (g_id g) (messages d)) = Some m"
    using latestOf_None by (cases "latestOf (groupOf (g_id g) (messages d))") auto
  from latestOf_Some [OF m]
  have "m \<in> set (messages d)" "contactId m = g_id g"
    "\<forall>m' \<in> set (messages d). contactId m' = g_id g \<longrightarrow> timestamp m' \<le> timestamp m"
    by (auto simp: groupOf_def)
  with m that show ?thesis by blast
qed

lemma filter_drop_tail: "filter P E = [] \<Longrightarrow> filter P (M @ E) = filter P M"
  by simp

lemma filter_drop_second:
  "\<not> P b \<Longrightarrow> filter P E = [] \<Longrightarrow> filter P (a # b # (M @ E)) = filter P (a # M)"
  by simp

lemma lastMessageSentiment_agrees:
  assumes "direction m = Inbound"
    and "\<forall>w \<in> set omittedWords. \<not> js_includes (toLowerCase (message m)) w"
  shows "lastMessageSentiment (Some m) = a_sentiment (analyzeSentiment (message m))"
proof -
  define P where "P = js_includes (toLowerCase (message m))"
  have o: "\<not> P ''thanks''" "\<not> P ''awesome''" "\<not> P ''amazing''" "\<not> P ''wonderful''"
    "\<not> P ''pleased''" "\<not> P ''wrong''" "\<not> P ''broken''" "\<not> P ''refund''" "\<not> P ''cancel''"
    "\<not> P ''complaint''"
    using assms(2) unfolding omittedWords_def P_def by simp_all
  have pe: "filter P [''awesome'', ''amazing'', ''wonderful'', ''pleased''] = []"
    using o by simp
  have ne: "filter P [''wrong'', ''broken'', ''refund'', ''cancel'', ''complaint''] = []"
    using o by simp
  have pw: "positiveWords = ''thank'' # ''thanks'' #
      ([''great'', ''good'', ''excellent'', ''happy'', ''satisfied'', ''love'', ''perfect'']
       @ [''awesome'', ''amazing'', ''wonderful'', ''pleased''])"
    unfolding positiveWords_def by simp
  have cpw: "convPositiveWords = ''thank'' #
      [''great'', ''good'', ''excellent'', ''happy'', ''satisfied'', ''love'', ''perfect'']"
    unfolding convPositiveWords_def by simp
  have nw: "negativeWords = convNegativeWords
      @ [''wrong'', ''broken'', ''refund'', ''cancel'', ''complaint'']"
    unfolding negativeWords_def convNegativeWords_def by simp
  have pos: "filter P positiveWords = filter P convPositiveWords"
    unfolding pw cpw by (rule filter_drop_second [OF o(1) pe])
  have neg: "filter P negativeWords = filter P convNegativeWords"
    unfolding nw by (rule filter_drop_tail [OF ne])
  have l: "lastMessageSentiment (Some m)
        = (if length (filter P convNegativeWords) > length (filter P convPositiveWords)
           then Negative
           else if length (filter P convPositiveWords) > length (filter P convNegativeWords)
           then Positive else Neutral)"
    using assms(1) by (simp add: lastMessageSentiment_def Let_def P_def)
  have r: "a_sentiment (analyzeSentiment (message m))
        = (if length (filter P negativeWords) > length (filter P positiveWords)
           then Negative
           else if length (filter P positiveWords) > length (filter P negativeWords)
           then Positive else Neutral)"
    by (simp add: analyzeSentiment_def Let_def P_def)
  show ?thesis unfolding l r pos neg ..
qed

lemma getConversations_Inr:
  "getConversations f nowMs d = Inr cs \<Longrightarrow> cs = map (populate nowMs d) (aggregate (messages d))"
  by (auto simp add: getConversations_def Let_def split: option.splits if_splits)

section \<open>Claims about the aggregator\<close>

text \<open>
  C1, as the route has it. The number a summary reports as unread is computed from the
  messages: it is the number of inbound messages stored under the \<open>contactId\<close> of the group.
  The counter stored with the contact is not used for it; it travels in the summary only as
  a field of the embedded contact, which is the contact found under that id, if any.
\<close>

theorem summary_unread_counts_inbound_messages:
  assumes "getConversations f nowMs d = Inr cs"
  shows "cs = map (populate nowMs d) (aggregate (messages d))
    \<and> (\<forall>g \<in> set (aggregate (messages d)).
          conv_unreadCount (populate nowMs d g)
          = length (filter (\<lambda>m. contactId m = g_id g \<and> direction m = Inbound) (messages d))
          \<and> conv_contact (populate nowMs d g)
            = (case g_id g of None \<Rightarrow> None | Some i \<Rightarrow> find (\<lambda>c. c_id c = i) (contacts d)))"
proof -
  have "conv_unreadCount (populate nowMs d g)
          = length (filter (\<lambda>m. contactId m = g_id g \<and> direction m = Inbound) (messages d))"
    if g: "g \<in> set (aggregate (messages d))" for g
  proof -
    have "conv_unreadCount (populate nowMs d g) = g_unreadCount g"
      by (simp add: populate_def Let_def)
    also have "\<dots> = g_unreadCount (groupStage (messages d) (g_id g))"
      using aggregate_member(1) [OF g] by simp
    finally show ?thesis by (simp add: groupStage_unread)
  qed
  moreover have "conv_contact (populate nowMs d g)
            = (case g_id g of None \<Rightarrow> None | Some i \<Rightarrow> find (\<lambda>c. c_id c = i) (contacts d))"
    for g
    by (simp add: populate_def Let_def)
  ultimately show ?thesis
    using getConversations_Inr [OF assms] by blast
qed

theorem summary_unread_counts_inbound_messages_witness:
  "map reportedAndStored (summariesOf (getConversations noFaults 7500000 repliedDb))
   = [(1, Some 0)]
   \<and> length (filter (\<lambda>m. contactId m = Some 7 \<and> direction m = Inbound) (messages repliedDb)) = 1"
proof -
  have ag: "aggregate (messages repliedDb)
            = [\<lparr>g_id = Some 7, g_lastMessage = 2000, g_messageCount = 2, g_unreadCount = 1\<rparr>]"
    by code_simp
  have run: "getConversations noFaults 7500000 repliedDb
             = Inr (map (populate 7500000 repliedDb) (aggregate (messages repliedDb)))"
    by (simp add: getConversations_def noFaults_def readFault_def Let_def)
  have cnt: "length (filter (\<lambda>m. contactId m = Some 7 \<and> direction m = Inbound)
               (messages repliedDb)) = 1"
    by (simp add: repliedDb_def)
  have fnd: "find (\<lambda>c. c_id c = 7) (contacts repliedDb)
     = Some \<lparr>c_id = 7, name = ''Asha'', c_phone = ''15551234567'',
        queryStatus = InProgress, unreadCount = 0, lastContacted = Some 0\<rparr>"
    by (simp add: repliedDb_def)
  from summary_unread_counts_inbound_messages [OF run]
  have "conv_unreadCount (populate 7500000 repliedDb
          \<lparr>g_id = Some 7, g_lastMessage = 2000, g_messageCount = 2, g_unreadCount = 1\<rparr>)
        = length (filter (\<lambda>m. contactId m = Some 7 \<and> direction m = Inbound)
            (messages repliedDb))"
    and "conv_contact (populate 7500000 repliedDb
          \<lparr>g_id = Some 7, g_lastMessage = 2000, g_messageCount = 2, g_unreadCount = 1\<rparr>)
        = find (\<lambda>c. c_id c = 7) (contacts repliedDb)"
    unfolding ag by simp_all
  then show ?thesis
    unfolding run ag using cnt fnd
    by (simp add: summariesOf_def reportedAndStored_def)
qed

text \<open>
  C1 as the specification words it fails: the contact has a stored counter of 0 and one
  inbound message, and its summary reports 1 unread.
\<close>

theorem summary_unread_is_not_the_stored_counter:
  "getConversations noFaults 7500000 repliedDb
   = Inr [\<lparr>conv_contact = Some \<lparr>c_id = 7, name = ''Asha'', c_phone = ''15551234567'',
              queryStatus = InProgress, unreadCount = 0, lastContacted = Some 0\<rparr>,
           conv_lastMessage = Some \<lparr>lm_message = ''We are on it'', lm_timestamp = 2000,
              lm_direction = Outbound\<rparr>,
           conv_messageCount = 2, conv_unreadCount = 1,
           conv_sla = Some \<lparr>overdue = True, minutes = 5, sla_text = ''5m overdue'',
              urgent = True\<rparr>,
           conv_sentiment = Neutral\<rparr>]"
  by code_simp

text \<open>
  C4, as the route has it. The sentiment of a summary is taken from the most recent message
  of the contact, whatever its direction: it is neutral when that message is outbound; when
  it is inbound, it is the label the keyword lists of the aggregator give to its text,
  which is the label of the classifier whenever the text has none of the ten keywords those
  lists leave out. The label stored with the message is not read.
\<close>

theorem summary_sentiment_of_last_message:
  assumes "g \<in> set (aggregate (messages d))"
  shows "\<exists>m. latestOf (groupOf (g_id g) (messages d)) = Some m
    \<and> m \<in> set (messages d) \<and> contactId m = g_id g
    \<and> (\<forall>m' \<in> set (messages d). contactId m' = g_id g \<longrightarrow> timestamp m' \<le> timestamp m)
    \<and> conv_sentiment (populate nowMs d g) = lastMessageSentiment (Some m)
    \<and> (direction m = Outbound \<longrightarrow> conv_sentiment (populate nowMs d g) = Neutral)
    \<and> (direction m = Inbound
         \<and> (\<forall>w \<in> set omittedWords. \<not> js_includes (toLowerCase (message m)) w) \<longrightarrow>
        conv_sentiment (populate nowMs d g) = a_sentiment (analyzeSentiment (message m)))"
proof -
  from group_latest [OF assms] obtain m where
    m: "latestOf (groupOf (g_id g) (messages d)) = Some m"
      "m \<in> set (messages d)" "contactId m = g_id g"
      "\<forall>m' \<in> set (messages d). contactId m' = g_id g \<longrightarrow> timestamp m' \<le> timestamp m"
    by blast
  have s: "conv_sentiment (populate nowMs d g) = lastMessageSentiment (Some m)"
    by (simp add: populate_def Let_def m(1))
  have out: "direction m = Outbound \<longrightarrow> conv_sentiment (populate nowMs d g) = Neutral"
    unfolding s by (simp add: lastMessageSentiment_def)
  have inb: "direction m = Inbound
         \<and> (\<forall>w \<in> set omittedWords. \<not> js_includes (toLowerCase (message m)) w) \<longrightarrow>
        conv_sentiment (populate nowMs d g) = a_sentiment (analyzeSentiment (message m))"
    unfolding s using lastMessageSentiment_agrees [of m] by blast
  show ?thesis using m s out inb by blast
qed

theorem summary_sentiment_of_last_message_witness:
  "map conv_sentiment (map (populate 7500000 repliedDb) (aggregate (messages repliedDb)))
   = [Neutral]
   \<and> map (\<lambda>m. (direction m, timestamp m)) (messages repliedDb)
     = [(Inbound, 1000), (Outbound, 2000)]"
proof -
  have ag: "aggregate (messages repliedDb)
            = [\<lparr>g_id = Some 7, g_lastMessage = 2000, g_messageCount = 2, g_unreadCount = 1\<rparr>]"
    by code_simp
  then have mem: "\<lparr>g_id = Some 7, g_lastMessage = 2000, g_messageCount = 2, g_unreadCount = 1\<rparr>
      \<in> set (aggregate (messages repliedDb))"
    by simp
  have lt: "latestOf (groupOf (Some 7) (messages repliedDb))
     = Some \<lparr>m_id = 2, contactId = Some 7, phone = ''15551234567'', direction = Outbound,
          message = ''We are on it'', timestamp = 2000,
          status = Sent, sentiment = Neutral, sentimentScore = 0.5\<rparr>"
    by code_simp
  from summary_sentiment_of_last_message [OF mem, of 7500000] lt
  have "conv_sentiment (populate 7500000 repliedDb
          \<lparr>g_id = Some 7, g_lastMessage = 2000, g_messageCount = 2, g_unreadCount = 1\<rparr>)
        = Neutral"
    by auto
  then show ?thesis
    unfolding ag by (simp add: repliedDb_def)
qed

text \<open>
  C4 as the specification words it fails: the most recent inbound message of the contact
  carries the label negative, an answer was sent after it, and the summary says neutral.
\<close>

theorem answered_contact_reads_neutral:
  "map conv_sentiment (summariesOf (getConversations noFaults 7500000 repliedDb)) = [Neutral]
   \<and> latestInboundSentiment repliedDb (Some 7) = Negative"
  by code_simp

end
